theory Spec2Isabelle
  imports Complex_Main "HOL-Library.Word"
begin

section \<open>Python numbers\<close>

text \<open>Python's \<^verbatim>\<open>round\<close> of a float: to the nearest integer, a tie to the even one.\<close>

definition py_round :: "real \<Rightarrow> int" where
  "py_round x =
    (let f = \<lfloor>x\<rfloor>; d = x - real_of_int f
     in if d < 1 / 2 then f else if 1 / 2 < d then f + 1 else if even f then f else f + 1)"

text \<open>
  A Python float and an element of a numpy \<^verbatim>\<open>float64\<close> array are IEEE 754 doubles: a
  finite value, a \<^verbatim>\<open>nan\<close> or an infinity. The sign of a zero is not modelled.
\<close>

datatype float64 = Finite real | NaN | PosInf | NegInf

text \<open>
  The result of an arithmetic operation is its exact result rounded to the nearest double,
  a tie to the even mantissa: a double has 53 bits of mantissa, the least exponent is
  -1022 (below it the spacing stays \<open>2\<^sup>-\<^sup>1\<^sup>0\<^sup>7\<^sup>4\<close>), and a rounded magnitude of \<open>2\<^sup>1\<^sup>0\<^sup>2\<^sup>4\<close>
  or more is an infinity.
\<close>

definition overflow_threshold :: real where
  "overflow_threshold = 2 powr 1024"

definition double_round :: "real \<Rightarrow> float64" where
  "double_round x =
    (if x = 0 then Finite 0
     else
       let e = max \<lfloor>log 2 \<bar>x\<bar>\<rfloor> (- 1022);
           q = 2 powr real_of_int (e - 52);
           y = real_of_int (py_round (x / q)) * q
       in if overflow_threshold \<le> \<bar>y\<bar> then (if 0 < x then PosInf else NegInf)
          else Finite y)"

text \<open>The reals that are doubles.\<close>

definition is_double :: "real \<Rightarrow> bool" where
  "is_double x = (double_round x = Finite x)"

definition float_sign :: "float64 \<Rightarrow> int" where
  "float_sign a =
    (case a of Finite x \<Rightarrow> (if x < 0 then - 1 else if x = 0 then 0 else 1)
     | NaN \<Rightarrow> 0 | PosInf \<Rightarrow> 1 | NegInf \<Rightarrow> - 1)"

definition signed_inf :: "int \<Rightarrow> float64" where
  "signed_inf s = (if s = 0 then NaN else if 0 < s then PosInf else NegInf)"

text \<open>The product and the quotient of two doubles.\<close>

definition float_mul :: "float64 \<Rightarrow> float64 \<Rightarrow> float64" where
  "float_mul a b =
    (case (a, b) of
       (NaN, _) \<Rightarrow> NaN
     | (_, NaN) \<Rightarrow> NaN
     | (Finite x, Finite y) \<Rightarrow> double_round (x * y)
     | _ \<Rightarrow> signed_inf (float_sign a * float_sign b))"

definition float_div :: "float64 \<Rightarrow> float64 \<Rightarrow> float64" where
  "float_div a b =
    (case (a, b) of
       (NaN, _) \<Rightarrow> NaN
     | (_, NaN) \<Rightarrow> NaN
     | (Finite x, Finite y) \<Rightarrow>
         (if y = 0 then signed_inf (float_sign a) else double_round (x / y))
     | (Finite x, _) \<Rightarrow> Finite 0
     | (_, Finite y) \<Rightarrow> signed_inf (float_sign a * (if y < 0 then - 1 else 1))
     | _ \<Rightarrow> NaN)"

text \<open>
  Python's \<^verbatim>\<open>int\<close> of a float truncates toward zero; it raises \<^verbatim>\<open>ValueError\<close> on a
  \<^verbatim>\<open>nan\<close> and \<^verbatim>\<open>OverflowError\<close> on an infinity.
\<close>

datatype error =
    ValueError | IndexError | ZeroDivisionError | AttributeError | KeyError | FileNotFoundError
  | OverflowError

definition py_int :: "float64 \<Rightarrow> error + int" where
  "py_int a =
    (case a of
       Finite x \<Rightarrow> Inr (if 0 \<le> x then \<lfloor>x\<rfloor> else \<lceil>x\<rceil>)
     | NaN \<Rightarrow> Inl ValueError
     | _ \<Rightarrow> Inl OverflowError)"

text \<open>
  Line 193 divides a numpy array of integers by an integer. Both are converted to
  \<^verbatim>\<open>float64\<close> and divided; numpy does not raise on a zero divisor: the quotient is
  \<^verbatim>\<open>nan\<close> for 0/0 and an infinity otherwise (with a warning).
\<close>

definition np_div :: "int \<Rightarrow> int \<Rightarrow> float64" where
  "np_div a b = float_div (double_round (real_of_int a)) (double_round (real_of_int b))"

section \<open>The configuration (lib/config/waymo.py)\<close>

text \<open>
  The configuration object \<^verbatim>\<open>_C\<close> is a tree of yacs nodes. Every key that
  \<^verbatim>\<open>waymo.py\<close> declares is a field of the records below, with the type of its default
  value. The dataset fractions, which the mixer multiplies and truncates, are doubles; the
  other floats, which only the learning-rate formula reads, are read as real numbers. Two keys
  share their name with another field and carry their group as a prefix:
  \<^verbatim>\<open>DATASET.DATASET\<close> is \<open>DATASET_DATASET\<close> and \<^verbatim>\<open>TEST.BATCH_SIZE\<close> is
  \<open>TEST_BATCH_SIZE\<close>. The field \<open>frozen\<close> is the immutability flag of the node, which
  \<^verbatim>\<open>defrost()\<close> clears and \<^verbatim>\<open>freeze()\<close> sets; it is not a key.
\<close>

record cudnn_cfg =
  BENCHMARK :: bool
  DETERMINISTIC :: bool
  ENABLED :: bool

record model_cfg =
  NAME :: string
  IMAGE_SIZE :: "int list"
  SEGM_CLASSES :: string

record loss_cfg =
  LAMBDA :: real
  SEG_POS_WEIGHT :: real
  DA_SEG_GAIN :: real
  MASKED :: bool

record dataset_cfg =
  DATASET_DATASET :: string
  PATH :: string
  VAL_PATH :: string
  DATASETS_FRACTIONS :: "float64 list"
  DATA_FORMAT :: string
  AUTO_SHAPE :: bool
  FILL_BETWEEN_POINTS :: bool
  USE_DET_CACHE :: bool
  WAYMO_DILATION :: bool
  MASKS_ONLY :: bool
  LIDAR_DATA_ONLY :: bool
  from_img_3D :: int
  to_img_3D :: int
  from_img_2D :: int
  to_img_2D :: int
  FLIP :: bool
  SCALE_FACTOR :: real
  ROT_FACTOR :: int
  TRANSLATE :: real
  SHEAR :: real
  COLOR_RGB :: bool
  HSV_H :: real
  HSV_S :: real
  HSV_V :: real

record train_cfg =
  LR0 :: real
  LRF :: real
  WARMUP_EPOCHS :: real
  WARMUP_BIASE_LR :: real
  WARMUP_MOMENTUM :: real
  OPTIMIZER :: string
  MOMENTUM :: real
  WD :: real
  NESTEROV :: bool
  GAMMA1 :: real
  GAMMA2 :: real
  BEGIN_EPOCH :: int
  END_EPOCH :: int
  VAL_FREQ :: int
  BATCH_SIZE :: int
  SHUFFLE :: bool
  SAVE_LOCALLY_PER_BATCH :: bool

record test_cfg =
  TEST_BATCH_SIZE :: int
  PLOTS :: bool

record cfg =
  frozen :: bool
  LOG_DIR :: string
  GPUS :: "int list"
  WORKERS :: int
  PIN_MEMORY :: bool
  PRINT_FREQ :: int
  DEBUG :: bool
  DEBUG_N_BATCHES :: int
  CLEARML_LOGGING :: bool
  num_seg_class :: int
  CUDNN :: cudnn_cfg
  MODEL :: model_cfg
  LOSS :: loss_cfg
  DATASET :: dataset_cfg
  TRAIN :: train_cfg
  TEST :: test_cfg
  inference_visualization :: bool
  save_video :: bool
  save_gt :: bool
  vis_train_gt :: bool

text \<open>
  The object \<^verbatim>\<open>_C\<close> as \<^verbatim>\<open>waymo.py\<close> builds it, lines 3 to 94. A fresh node is not
  frozen.
\<close>

definition waymo_C :: cfg where
  "waymo_C =
    \<lparr> frozen = False,
      LOG_DIR = ''runs/'',
      GPUS = [0],
      WORKERS = 4,
      PIN_MEMORY = False,
      PRINT_FREQ = 20,
      DEBUG = False,
      DEBUG_N_BATCHES = 0,
      CLEARML_LOGGING = False,
      num_seg_class = 2,
      CUDNN = \<lparr> BENCHMARK = True, DETERMINISTIC = False, ENABLED = True \<rparr>,
      MODEL = \<lparr> NAME = '''', IMAGE_SIZE = [640, 640], SEGM_CLASSES = ''road'' \<rparr>,
      LOSS = \<lparr> LAMBDA = 1, SEG_POS_WEIGHT = 1, DA_SEG_GAIN = 1, MASKED = True \<rparr>,
      DATASET =
        \<lparr> DATASET_DATASET = ''waymo_PSPNET_exps'',
          PATH = ''/mnt/large/data/waymo_2d_3d_segm'',
          VAL_PATH = ''/mnt/large/data/waymo_2d_3d_segm'',
          DATASETS_FRACTIONS = [Finite 1, Finite 1],
          DATA_FORMAT = ''jpg'',
          AUTO_SHAPE = False,
          FILL_BETWEEN_POINTS = False,
          USE_DET_CACHE = True,
          WAYMO_DILATION = False,
          MASKS_ONLY = False,
          LIDAR_DATA_ONLY = False,
          from_img_3D = 0,
          to_img_3D = 926,
          from_img_2D = 926,
          to_img_2D = 1852,
          FLIP = True,
          SCALE_FACTOR = 0.25,
          ROT_FACTOR = 10,
          TRANSLATE = 0.1,
          SHEAR = 0,
          COLOR_RGB = False,
          HSV_H = 0.015,
          HSV_S = 0.7,
          HSV_V = 0.4 \<rparr>,
      TRAIN =
        \<lparr> LR0 = 0.001,
          LRF = 0.5,
          WARMUP_EPOCHS = 3,
          WARMUP_BIASE_LR = 0.1,
          WARMUP_MOMENTUM = 0.8,
          OPTIMIZER = ''adam'',
          MOMENTUM = 0.937,
          WD = 0.0005,
          NESTEROV = True,
          GAMMA1 = 0.99,
          GAMMA2 = 0,
          BEGIN_EPOCH = 0,
          END_EPOCH = 200,
          VAL_FREQ = 1,
          BATCH_SIZE = 6,
          SHUFFLE = True,
          SAVE_LOCALLY_PER_BATCH = True \<rparr>,
      TEST = \<lparr> TEST_BATCH_SIZE = 1, PLOTS = True \<rparr>,
      inference_visualization = False,
      save_video = False,
      save_gt = False,
      vis_train_gt = True \<rparr>"

subsection \<open>Errors and outcomes\<close>

text \<open>
  The exceptions that the modelled code can raise are the values of \<open>error\<close> above. A
  computation that threads the program state ends in \<open>Done\<close> with the final state, or in
  \<open>Raised\<close> with the exception and the state reached when it was raised.
\<close>

datatype 's outcome = Done 's | Raised error 's

subsection \<open>Command line arguments and \<^verbatim>\<open>update_config\<close>\<close>

text \<open>
  \<^verbatim>\<open>parse_args\<close> (train.py, lines 40 to 55) yields three values: \<^verbatim>\<open>logDir\<close> (a
  string, default \<^verbatim>\<open>'runs/'\<close>), \<^verbatim>\<open>load_from\<close> (a string or \<^verbatim>\<open>None\<close>) and
  \<^verbatim>\<open>dataset_type\<close> (a string, default \<^verbatim>\<open>'waymo'\<close>).
\<close>

record args =
  logDir :: string
  load_from :: "string option"
  dataset_type :: string

definition default_args :: args where
  "default_args = \<lparr> logDir = ''runs/'', load_from = None, dataset_type = ''waymo'' \<rparr>"

text \<open>Python's truth value of a string, and of an optional string.\<close>

definition truthy :: "string \<Rightarrow> bool" where
  "truthy s = (s \<noteq> [])"

definition truthy_opt :: "string option \<Rightarrow> bool" where
  "truthy_opt so = (case so of None \<Rightarrow> False | Some s \<Rightarrow> truthy s)"

definition defrost :: "cfg \<Rightarrow> cfg" where
  "defrost c = c\<lparr>frozen := False\<rparr>"

definition freeze :: "cfg \<Rightarrow> cfg" where
  "freeze c = c\<lparr>frozen := True\<rparr>"

text \<open>Assigning a key of a frozen node raises \<^verbatim>\<open>AttributeError\<close> in yacs.\<close>

definition set_LOG_DIR :: "string \<Rightarrow> cfg \<Rightarrow> error + cfg" where
  "set_LOG_DIR d c = (if frozen c then Inl AttributeError else Inr (c\<lparr>LOG_DIR := d\<rparr>))"

text \<open>\<^verbatim>\<open>update_config\<close>, waymo.py lines 97 to 103.\<close>

definition update_config :: "cfg \<Rightarrow> args \<Rightarrow> error + cfg" where
  "update_config c a =
    (let c1 = defrost c in
     case (if truthy (logDir a) then set_LOG_DIR (logDir a) c1 else Inr c1) of
       Inl e \<Rightarrow> Inl e
     | Inr c2 \<Rightarrow> Inr (freeze c2))"

text \<open>
  The choice of the configuration object, train.py lines 62 to 67. The two objects are
  the module-level nodes that train.py imports as \<^verbatim>\<open>cfg_kitti\<close> and
  \<^verbatim>\<open>cfg_waymo\<close>, as they stand when \<^verbatim>\<open>main\<close> starts; \<open>waymo_C\<close> above is the
  second one as the repository ships it.
\<close>

definition select_cfg :: "cfg \<Rightarrow> cfg \<Rightarrow> string \<Rightarrow> error + cfg" where
  "select_cfg cfg_kitti cfg_waymo dt =
    (if dt = ''kitti'' then Inr cfg_kitti
     else if dt = ''waymo'' then Inr cfg_waymo
     else Inl ValueError)"

section \<open>Strings and paths\<close>

text \<open>
  The decimal text of an integer, as an f-string prints it, and
  \<^verbatim>\<open>os.path.join\<close> of two components (POSIX rules).
\<close>

definition digit_char :: "nat \<Rightarrow> char" where
  "digit_char d = ''0123456789'' ! d"

function str_nat :: "nat \<Rightarrow> string" where
  "str_nat n = (if n < 10 then [digit_char n] else str_nat (n div 10) @ [digit_char (n mod 10)])"
  by pat_completeness auto
termination
  by (relation "measure (\<lambda>n. n)") auto

declare str_nat.simps [simp del]

definition str_int :: "int \<Rightarrow> string" where
  "str_int i = (if i < 0 then CHR ''-'' # str_nat (nat (- i)) else str_nat (nat i))"

definition path_join :: "string \<Rightarrow> string \<Rightarrow> string" where
  "path_join a b =
    (if b \<noteq> [] \<and> hd b = CHR ''/'' then b
     else if a = [] \<or> last a = CHR ''/'' then a @ b
     else a @ ''/'' @ b)"

section \<open>The fractional mixer (train.py, lines 114 to 193)\<close>

text \<open>
  The dataset classes \<^verbatim>\<open>SegmDataset2D\<close> and \<^verbatim>\<open>SegmDataset3D\<close> are not among the
  sources. A dataset object is the record of the arguments it was built from, the name
  that \<^verbatim>\<open>main\<close> assigns to it, and its length, which a parameter supplies. The result of
  \<^verbatim>\<open>len\<close> is a non-negative integer below \<open>2\<^sup>6\<^sup>3\<close>.
\<close>

datatype kind = SegmDataset2D | SegmDataset3D

record dataset =
  ds_class :: kind
  ds_is_train :: bool
  ds_data_path :: string
  ds_split :: string
  ds_from_img :: "int option"
  ds_to_img :: "int option"
  ds_name :: string
  ds_len :: "63 word"

type_synonym dataset_len_fn =
  "kind \<Rightarrow> cfg \<Rightarrow> bool \<Rightarrow> string \<Rightarrow> string \<Rightarrow> int option \<Rightarrow> int option \<Rightarrow> 63 word"

definition new_dataset ::
  "dataset_len_fn \<Rightarrow> kind \<Rightarrow> cfg \<Rightarrow> bool \<Rightarrow> string \<Rightarrow> string \<Rightarrow> int option \<Rightarrow> int option
    \<Rightarrow> string \<Rightarrow> dataset" where
  "new_dataset dlen k c tr p sp fr to nm =
    \<lparr> ds_class = k, ds_is_train = tr, ds_data_path = p, ds_split = sp, ds_from_img = fr,
      ds_to_img = to, ds_name = nm, ds_len = dlen k c tr p sp fr to \<rparr>"

text \<open>
  Lines 114 to 178: which datasets are built and which fractions go with them. The
  \<^verbatim>\<open>if\<close> chain tests \<^verbatim>\<open>MASKS_ONLY\<close> first.
\<close>

definition select_datasets :: "dataset_len_fn \<Rightarrow> cfg \<Rightarrow> dataset list \<times> float64 list" where
  "select_datasets dlen c =
    (let data_path = PATH (DATASET c) in
     if MASKS_ONLY (DATASET c) then
       ([new_dataset dlen SegmDataset2D c True data_path ''train'' None None
           ''Segmentation 2D''],
        [Finite 1])
     else if LIDAR_DATA_ONLY (DATASET c) then
       ([new_dataset dlen SegmDataset3D c True data_path ''train'' None None
           ''Segmentation repojected 3D''],
        [Finite 1])
     else
       ([new_dataset dlen SegmDataset3D c True data_path ''train''
           (Some (from_img_3D (DATASET c))) (Some (to_img_3D (DATASET c)))
           ''Segmentation repojected 3D'',
         new_dataset dlen SegmDataset2D c True data_path ''train''
           (Some (from_img_2D (DATASET c))) (Some (to_img_2D (DATASET c)))
           ''Segmentation 2D''],
        DATASETS_FRACTIONS (DATASET c)))"

text \<open>
  The product \<^verbatim>\<open>datasets_fraction * len(dataset_)\<close> of line 184: the length is
  converted to a double, then multiplied.
\<close>

definition float_of_len :: "63 word \<Rightarrow> float64" where
  "float_of_len n = double_round (real (unat n))"

definition fraction_times_len :: "float64 \<Rightarrow> 63 word \<Rightarrow> float64" where
  "fraction_times_len f n = float_mul f (float_of_len n)"

text \<open>
  Lines 180 to 186, the loop over \<^verbatim>\<open>enumerate(datasets)\<close>: the index \<open>i\<close>, the list
  \<^verbatim>\<open>dataset_samples_list\<close> and the counter \<^verbatim>\<open>num_samples\<close> are the loop's
  variables. Reading \<^verbatim>\<open>datasets_fractions[i]\<close> past the end of the list raises
  \<^verbatim>\<open>IndexError\<close>, and \<^verbatim>\<open>int\<close> raises on a product that is not finite.
\<close>

fun mixer_loop ::
  "dataset list \<Rightarrow> float64 list \<Rightarrow> nat \<Rightarrow> int list \<Rightarrow> int \<Rightarrow> error + (int list \<times> int)" where
  "mixer_loop [] fs i dataset_samples_list num_samples =
     Inr (dataset_samples_list, num_samples)"
| "mixer_loop (d # ds) fs i dataset_samples_list num_samples =
     (if i < length fs then
        (let datasets_fraction = fs ! i
         in case py_int (fraction_times_len datasets_fraction (ds_len d)) of
              Inl e \<Rightarrow> Inl e
            | Inr dataset_samples \<Rightarrow>
                mixer_loop ds fs (Suc i) (dataset_samples_list @ [dataset_samples])
                  (num_samples + dataset_samples))
      else Inl IndexError)"

record mix =
  dataset_samples_list :: "int list"
  num_samples :: int
  weights :: "float64 list"

definition mixer :: "dataset list \<Rightarrow> float64 list \<Rightarrow> error + mix" where
  "mixer ds fs =
    (case mixer_loop ds fs 0 [] 0 of
       Inl e \<Rightarrow> Inl e
     | Inr (l, n) \<Rightarrow>
         Inr \<lparr> dataset_samples_list = l, num_samples = n, weights = map (\<lambda>s. np_div s n) l \<rparr>)"

section \<open>The learning-rate schedule (train.py, lines 106 to 108)\<close>

text \<open>
  The lambda \<^verbatim>\<open>lf\<close> of line 106. Its argument is the scheduler's integer counter; the
  division by \<^verbatim>\<open>cfg.TRAIN.END_EPOCH\<close> raises \<^verbatim>\<open>ZeroDivisionError\<close> when that key
  is 0.
\<close>

definition lf :: "cfg \<Rightarrow> int \<Rightarrow> error + real" where
  "lf c x =
    (if END_EPOCH (TRAIN c) = 0 then Inl ZeroDivisionError
     else Inr (((1 + cos (real_of_int x * pi / real_of_int (END_EPOCH (TRAIN c)))) / 2) *
                 (1 - LRF (TRAIN c)) + LRF (TRAIN c)))"

text \<open>
  The optimizer is opaque but for its learning rate, which the scheduler writes.
  \<^verbatim>\<open>torch.optim.lr_scheduler.LambdaLR\<close> belongs to a library: on construction it
  records the optimizer's rate as its base rate, sets its counter to 0 and sets the rate
  to the base rate times \<^verbatim>\<open>lf(0)\<close>; each \<^verbatim>\<open>step()\<close> adds one to the counter and sets
  the rate to the base rate times \<^verbatim>\<open>lf(counter)\<close>.
\<close>

record 'o optimizer_state =
  lr :: real
  opt_rest :: 'o

record lambda_lr =
  base_lr :: real
  last_epoch :: int

definition LambdaLR ::
  "cfg \<Rightarrow> 'o optimizer_state \<Rightarrow> error + (lambda_lr \<times> 'o optimizer_state)" where
  "LambdaLR c opt =
    (case lf c 0 of
       Inl e \<Rightarrow> Inl e
     | Inr f \<Rightarrow> Inr (\<lparr> base_lr = lr opt, last_epoch = 0 \<rparr>, opt\<lparr>lr := lr opt * f\<rparr>))"

definition LambdaLR_step ::
  "cfg \<Rightarrow> lambda_lr \<Rightarrow> 'o optimizer_state \<Rightarrow> error + (lambda_lr \<times> 'o optimizer_state)" where
  "LambdaLR_step c sch opt =
    (case lf c (last_epoch sch + 1) of
       Inl e \<Rightarrow> Inl e
     | Inr f \<Rightarrow> Inr (sch\<lparr>last_epoch := last_epoch sch + 1\<rparr>, opt\<lparr>lr := base_lr sch * f\<rparr>))"

section \<open>Program state\<close>

text \<open>
  A checkpoint file holds the four fields the interface section of the specification
  lists; the final artifact holds the model parameters alone. The type \<open>'m\<close> is the
  model's parameter mapping.
\<close>

record ('m, 'o) checkpoint =
  ck_epoch :: int
  ck_model_name :: string
  ck_state_dict :: 'm
  ck_optimizer :: "'o optimizer_state"

datatype ('m, 'o) artifact = CheckpointFile "('m, 'o) checkpoint" | StateFile 'm

text \<open>
  What \<^verbatim>\<open>main\<close> does to the outside, in order. Prints and log lines are left out.
\<close>

datatype ('m, 'o) event =
    CreateLogger string
  | CreateWriter string
  | CreateModel
  | LoadStateDict string
  | CreateOptimizer
  | CreateScheduler
  | CreateDataset dataset
  | CreateTrainLoader "float64 list" int int
  | CreateValLoader int
  | SetEpoch int
  | Train int int
  | SchedulerStep
  | Validate int
  | SaveCheckpoint string string "('m, 'o) checkpoint"
  | SaveFinal string 'm
  | CloseWriter

record ('m, 'o) world =
  files :: "string \<Rightarrow> ('m, 'o) artifact option"
  trace :: "('m, 'o) event list"

record writer_dict =
  train_global_steps :: int
  valid_global_steps :: int

record ('m, 'o) run_state =
  model :: 'm
  optimizer :: "'o optimizer_state"
  lr_scheduler :: lambda_lr
  writer :: writer_dict
  world :: "('m, 'o) world"

definition log_event :: "('m, 'o) event \<Rightarrow> ('m, 'o) world \<Rightarrow> ('m, 'o) world" where
  "log_event e w = w\<lparr>trace := trace w @ [e]\<rparr>"

definition emit :: "('m, 'o) event \<Rightarrow> ('m, 'o) run_state \<Rightarrow> ('m, 'o) run_state" where
  "emit e s = s\<lparr>world := log_event e (world s)\<rparr>"

text \<open>
  The parts of the program and of its environment that are not among the sources are
  parameters: the two configuration objects, the \<^verbatim>\<open>RANK\<close> variable of the process
  environment with Python's parsing of an integer, \<^verbatim>\<open>create_logger\<close> (which returns the output
  directory and the tensorboard directory), the freshly built network, \<^verbatim>\<open>get_optimizer\<close>,
  the lengths of the datasets and of the weighted loader, and the training pass, which
  may change the model, the optimizer and the step counters of \<^verbatim>\<open>writer_dict\<close>. They
  are taken to return normally.
\<close>

record ('m, 'o) env =
  cfg_kitti :: cfg
  cfg_waymo :: cfg
  RANK :: "string option"
  int_of_str :: "string \<Rightarrow> int option"
  create_logger :: "cfg \<Rightarrow> string \<Rightarrow> string \<Rightarrow> string \<times> string"
  PSPNet :: 'm
  get_optimizer :: "cfg \<Rightarrow> 'm \<Rightarrow> 'o optimizer_state"
  dataset_len :: dataset_len_fn
  loader_len :: "float64 list \<Rightarrow> int \<Rightarrow> int \<Rightarrow> nat"
  train ::
    "cfg \<Rightarrow> int \<Rightarrow> nat \<Rightarrow> int \<Rightarrow> 'm \<Rightarrow> 'o optimizer_state \<Rightarrow> writer_dict
      \<Rightarrow> 'm \<times> 'o optimizer_state \<times> writer_dict"

section \<open>Checkpoints\<close>

text \<open>
  Modelled from the spec: \<^verbatim>\<open>save_checkpoint\<close> of \<^verbatim>\<open>lib/utils/utils.py\<close> is missing
  from the sources. By the specification the persisted object has the fields epoch, model
  name, model parameters and optimizer state, and the file is named by the epoch; the
  call at lines 264 to 271 passes these values, the directory and the file name.
\<close>

definition save_checkpoint ::
  "int \<Rightarrow> string \<Rightarrow> 'm \<Rightarrow> 'o optimizer_state \<Rightarrow> string \<Rightarrow> string \<Rightarrow> ('m, 'o) world
    \<Rightarrow> ('m, 'o) world" where
  "save_checkpoint epoch name m opt output_dir filename w =
    (let ck = \<lparr> ck_epoch = epoch, ck_model_name = name, ck_state_dict = m, ck_optimizer = opt \<rparr>
     in log_event (SaveCheckpoint output_dir filename ck)
          (w\<lparr>files := (files w)(path_join output_dir filename \<mapsto> CheckpointFile ck)\<rparr>))"

text \<open>\<^verbatim>\<open>torch.save(model_state, final_model_state_file)\<close>, line 278.\<close>

definition torch_save_state :: "'m \<Rightarrow> string \<Rightarrow> ('m, 'o) world \<Rightarrow> ('m, 'o) world" where
  "torch_save_state m path w =
    log_event (SaveFinal path m) (w\<lparr>files := (files w)(path \<mapsto> StateFile m)\<rparr>)"

text \<open>
  Line 101, \<^verbatim>\<open>torch.load(args.load_from)['state_dict']\<close>: a missing file raises, and
  so does the subscript on a file that holds bare model parameters.
\<close>

definition load_state_dict_from :: "('m, 'o) world \<Rightarrow> string \<Rightarrow> error + 'm" where
  "load_state_dict_from w path =
    (case files w path of
       None \<Rightarrow> Inl FileNotFoundError
     | Some (StateFile m) \<Rightarrow> Inl KeyError
     | Some (CheckpointFile ck) \<Rightarrow> Inr (ck_state_dict ck))"

section \<open>The epoch controller (train.py, lines 233 to 279)\<close>

text \<open>Lines 241 and 242: the training pass, entered with the current step counter.\<close>

definition run_train ::
  "('m, 'o) env \<Rightarrow> cfg \<Rightarrow> int \<Rightarrow> nat \<Rightarrow> int \<Rightarrow> ('m, 'o) run_state \<Rightarrow> ('m, 'o) run_state" where
  "run_train env c epoch num_batch num_warmup s =
    (let s1 = emit (Train epoch (train_global_steps (writer s))) s
     in case train env c epoch num_batch num_warmup (model s1) (optimizer s1) (writer s1) of
          (m, opt, wd) \<Rightarrow> s1\<lparr>model := m, optimizer := opt, writer := wd\<rparr>)"

text \<open>Line 244, \<^verbatim>\<open>lr_scheduler.step()\<close>.\<close>

definition scheduler_step :: "cfg \<Rightarrow> ('m, 'o) run_state \<Rightarrow> ('m, 'o) run_state outcome" where
  "scheduler_step c s =
    (case LambdaLR_step c (lr_scheduler s) (optimizer s) of
       Inl e \<Rightarrow> Raised e s
     | Inr (sch, opt) \<Rightarrow> Done (emit SchedulerStep (s\<lparr>lr_scheduler := sch, optimizer := opt\<rparr>)))"

text \<open>
  Lines 247 to 258. The remainder \<^verbatim>\<open>epoch % cfg.TRAIN.VAL_FREQ\<close> is evaluated first
  and raises when the divisor is 0. The validation pass is given neither the optimizer
  nor \<^verbatim>\<open>writer_dict\<close>; by the specification it leaves the model as it is.
\<close>

definition validation_step ::
  "cfg \<Rightarrow> int \<Rightarrow> ('m, 'o) run_state \<Rightarrow> ('m, 'o) run_state outcome" where
  "validation_step c epoch s =
    (if VAL_FREQ (TRAIN c) = 0 then Raised ZeroDivisionError s
     else if epoch mod VAL_FREQ (TRAIN c) = 0 \<or> epoch = END_EPOCH (TRAIN c)
       then Done (emit (Validate epoch) s)
     else Done s)"

text \<open>Lines 261 to 271.\<close>

definition checkpoint_step ::
  "cfg \<Rightarrow> string \<Rightarrow> int \<Rightarrow> ('m, 'o) run_state \<Rightarrow> ('m, 'o) run_state" where
  "checkpoint_step c final_output_dir epoch s =
    (if epoch mod 5 = 0 then
       s\<lparr>world := save_checkpoint epoch (NAME (MODEL c)) (model s) (optimizer s)
                    final_output_dir (''epoch-'' @ str_int epoch @ ''.pth'') (world s)\<rparr>
     else s)"

text \<open>The body of the loop, lines 238 to 271.\<close>

definition epoch_body ::
  "('m, 'o) env \<Rightarrow> cfg \<Rightarrow> int \<Rightarrow> nat \<Rightarrow> int \<Rightarrow> string \<Rightarrow> int \<Rightarrow> ('m, 'o) run_state
    \<Rightarrow> ('m, 'o) run_state outcome" where
  "epoch_body env c rank num_batch num_warmup final_output_dir epoch s =
    (let s1 = (if rank \<noteq> - 1 then emit (SetEpoch epoch) s else s);
         s2 = run_train env c epoch num_batch num_warmup s1
     in case scheduler_step c s2 of
          Raised e s3 \<Rightarrow> Raised e s3
        | Done s3 \<Rightarrow>
            (case validation_step c epoch s3 of
               Raised e s4 \<Rightarrow> Raised e s4
             | Done s4 \<Rightarrow> Done (checkpoint_step c final_output_dir epoch s4)))"

text \<open>
  The \<^verbatim>\<open>for\<close> loop of line 237 over the epochs of \<^verbatim>\<open>range(begin_epoch+1,
  cfg.TRAIN.END_EPOCH+1)\<close>, which is evaluated once, before the first iteration.
\<close>

fun epoch_loop ::
  "('m, 'o) env \<Rightarrow> cfg \<Rightarrow> int \<Rightarrow> nat \<Rightarrow> int \<Rightarrow> string \<Rightarrow> int list \<Rightarrow> ('m, 'o) run_state
    \<Rightarrow> ('m, 'o) run_state outcome" where
  "epoch_loop env c rank num_batch num_warmup final_output_dir [] s = Done s"
| "epoch_loop env c rank num_batch num_warmup final_output_dir (epoch # epochs) s =
    (case epoch_body env c rank num_batch num_warmup final_output_dir epoch s of
       Raised e s' \<Rightarrow> Raised e s'
     | Done s' \<Rightarrow> epoch_loop env c rank num_batch num_warmup final_output_dir epochs s')"

text \<open>Lines 273 to 279: the final artifact, then the writer is closed.\<close>

definition save_final :: "string \<Rightarrow> ('m, 'o) run_state \<Rightarrow> ('m, 'o) run_state" where
  "save_final final_output_dir s =
    s\<lparr>world := log_event CloseWriter
        (torch_save_state (model s) (path_join final_output_dir ''final_state.pth'') (world s))\<rparr>"

definition main_training ::
  "('m, 'o) env \<Rightarrow> cfg \<Rightarrow> int \<Rightarrow> nat \<Rightarrow> string \<Rightarrow> int \<Rightarrow> ('m, 'o) run_state
    \<Rightarrow> ('m, 'o) run_state outcome" where
  "main_training env c rank num_batch final_output_dir begin_epoch s =
    (let num_warmup = max (py_round (WARMUP_EPOCHS (TRAIN c) * real num_batch)) 1000
     in case epoch_loop env c rank num_batch num_warmup final_output_dir
               [begin_epoch + 1 .. END_EPOCH (TRAIN c)] s of
          Raised e s' \<Rightarrow> Raised e s'
        | Done s' \<Rightarrow> Done (save_final final_output_dir s'))"

section \<open>The program (train.py, \<^verbatim>\<open>main\<close>)\<close>

text \<open>Line 72.\<close>

definition global_rank :: "('m, 'o) env \<Rightarrow> error + int" where
  "global_rank env =
    (case RANK env of
       None \<Rightarrow> Inr (- 1)
     | Some v \<Rightarrow> (case int_of_str env v of None \<Rightarrow> Inl ValueError | Some i \<Rightarrow> Inr i))"

text \<open>Lines 93 to 101: the network, and the parameters of a checkpoint when one is named.\<close>

definition load_model ::
  "('m, 'o) env \<Rightarrow> args \<Rightarrow> ('m, 'o) world \<Rightarrow> error + ('m \<times> ('m, 'o) world)" where
  "load_model env a w =
    (case load_from a of
       None \<Rightarrow> Inr (PSPNet env, w)
     | Some p \<Rightarrow>
         if truthy p then
           (case load_state_dict_from w p of
              Inl e \<Rightarrow> Inl e
            | Inr m \<Rightarrow> Inr (m, log_event (LoadStateDict p) w))
         else Inr (PSPNet env, w))"

text \<open>Lines 111 to 231, from the datasets to the loaders, and on to the training.\<close>

definition main_data ::
  "('m, 'o) env \<Rightarrow> cfg \<Rightarrow> int \<Rightarrow> string \<Rightarrow> ('m, 'o) run_state \<Rightarrow> ('m, 'o) world outcome" where
  "main_data env c rank final_output_dir s =
    (case select_datasets (dataset_len env) c of
       (datasets, datasets_fractions) \<Rightarrow>
         (let s1 = fold (\<lambda>d. emit (CreateDataset d)) datasets s
          in case mixer datasets datasets_fractions of
               Inl e \<Rightarrow> Raised e (world s1)
             | Inr mx \<Rightarrow>
                 (let s2 = emit (CreateTrainLoader (weights mx) (num_samples mx)
                                   (BATCH_SIZE (TRAIN c))) s1;
                      num_batch = loader_len env (weights mx) (num_samples mx)
                                    (BATCH_SIZE (TRAIN c));
                      valid_dataset = new_dataset (dataset_len env) SegmDataset2D c False
                                        (VAL_PATH (DATASET c)) ''val'' None None [];
                      s3 = emit (CreateValLoader (TEST_BATCH_SIZE (TEST c)))
                             (emit (CreateDataset valid_dataset) s2)
                  in map_outcome world
                       (main_training env c rank num_batch final_output_dir
                          (BEGIN_EPOCH (TRAIN c)) s3))))"

text \<open>Lines 75 to 110: logger, writer, network, optimizer and scheduler.\<close>

definition main_setup ::
  "('m, 'o) env \<Rightarrow> args \<Rightarrow> cfg \<Rightarrow> int \<Rightarrow> ('m, 'o) world \<Rightarrow> ('m, 'o) world outcome" where
  "main_setup env a c rank w0 =
    (case create_logger env c (LOG_DIR c) ''train'' of
       (final_output_dir, tb_log_dir) \<Rightarrow>
         (let w1 = log_event (CreateWriter tb_log_dir) (log_event (CreateLogger (LOG_DIR c)) w0);
              w2 = log_event CreateModel w1
          in case load_model env a w2 of
               Inl e \<Rightarrow> Raised e w2
             | Inr (m, w3) \<Rightarrow>
                 (let opt0 = get_optimizer env c m;
                      w4 = log_event CreateOptimizer w3
                  in case LambdaLR c opt0 of
                       Inl e \<Rightarrow> Raised e w4
                     | Inr (sch, opt) \<Rightarrow>
                         main_data env c rank final_output_dir
                           \<lparr> model = m, optimizer = opt, lr_scheduler = sch,
                             writer = \<lparr> train_global_steps = 0, valid_global_steps = 0 \<rparr>,
                             world = log_event CreateScheduler w4 \<rparr>)))"

text \<open>Lines 69 to 74: the arguments update the chosen configuration.\<close>

definition main_configured ::
  "('m, 'o) env \<Rightarrow> args \<Rightarrow> cfg \<Rightarrow> ('m, 'o) world \<Rightarrow> ('m, 'o) world outcome" where
  "main_configured env a c0 w0 =
    (case update_config c0 a of
       Inl e \<Rightarrow> Raised e w0
     | Inr c \<Rightarrow>
         (case global_rank env of
            Inl e \<Rightarrow> Raised e w0
          | Inr rank \<Rightarrow> main_setup env a c rank w0))"

text \<open>Lines 58 to 67: the dataset type selects the configuration, or the run ends.\<close>

definition main :: "('m, 'o) env \<Rightarrow> args \<Rightarrow> ('m, 'o) world \<Rightarrow> ('m, 'o) world outcome" where
  "main env a w0 =
    (case select_cfg (cfg_kitti env) (cfg_waymo env) (dataset_type a) of
       Inl e \<Rightarrow> Raised e w0
     | Inr c0 \<Rightarrow> main_configured env a c0 w0)"

section \<open>Reading a trace\<close>

text \<open>
  The training passes of a trace with the step counter each was entered with, the
  checkpoints written, the final artifacts written, and the validation passes.
\<close>

definition train_entries :: "('m, 'o) event list \<Rightarrow> (int \<times> int) list" where
  "train_entries tr =
    concat (map (\<lambda>ev. case ev of Train epoch st \<Rightarrow> [(epoch, st)] | _ \<Rightarrow> []) tr)"

definition checkpoints_saved ::
  "('m, 'o) event list \<Rightarrow> (string \<times> string \<times> ('m, 'o) checkpoint) list" where
  "checkpoints_saved tr =
    concat (map (\<lambda>ev. case ev of SaveCheckpoint d f ck \<Rightarrow> [(d, f, ck)] | _ \<Rightarrow> []) tr)"

definition finals_saved :: "('m, 'o) event list \<Rightarrow> (string \<times> 'm) list" where
  "finals_saved tr = concat (map (\<lambda>ev. case ev of SaveFinal f m \<Rightarrow> [(f, m)] | _ \<Rightarrow> []) tr)"

definition validations :: "('m, 'o) event list \<Rightarrow> int list" where
  "validations tr = concat (map (\<lambda>ev. case ev of Validate epoch \<Rightarrow> [epoch] | _ \<Rightarrow> []) tr)"

definition scheduler_steps :: "('m, 'o) event list \<Rightarrow> nat" where
  "scheduler_steps tr = length (filter (\<lambda>ev. ev = SchedulerStep) tr)"

section \<open>The schema of the configuration and its loader\<close>

text \<open>
  Which keys each node of \<^verbatim>\<open>waymo.py\<close> declares, and whether the node was built with
  \<^verbatim>\<open>new_allowed=True\<close>: the root (line 3) and \<^verbatim>\<open>CUDNN\<close> (line 16) were not, the
  groups of lines 22, 28, 35, 66 and 86 were.
\<close>

record group =
  new_allowed :: bool
  keys :: "string list"

record schema =
  root_new_allowed :: bool
  root_keys :: "string list"
  groups :: "(string \<times> group) list"

definition waymo_schema :: schema where
  "waymo_schema =
    \<lparr> root_new_allowed = False,
      root_keys =
        [''LOG_DIR'', ''GPUS'', ''WORKERS'', ''PIN_MEMORY'', ''PRINT_FREQ'', ''DEBUG'',
         ''DEBUG_N_BATCHES'', ''CLEARML_LOGGING'', ''num_seg_class'',
         ''inference_visualization'', ''save_video'', ''save_gt'', ''vis_train_gt''],
      groups =
        [(''CUDNN'',
          \<lparr> new_allowed = False, keys = [''BENCHMARK'', ''DETERMINISTIC'', ''ENABLED''] \<rparr>),
         (''MODEL'',
          \<lparr> new_allowed = True, keys = [''NAME'', ''IMAGE_SIZE'', ''SEGM_CLASSES''] \<rparr>),
         (''LOSS'',
          \<lparr> new_allowed = True,
            keys = [''LAMBDA'', ''SEG_POS_WEIGHT'', ''DA_SEG_GAIN'', ''MASKED''] \<rparr>),
         (''DATASET'',
          \<lparr> new_allowed = True,
            keys =
              [''DATASET'', ''PATH'', ''VAL_PATH'', ''DATASETS_FRACTIONS'', ''DATA_FORMAT'',
               ''AUTO_SHAPE'', ''FILL_BETWEEN_POINTS'', ''USE_DET_CACHE'', ''WAYMO_DILATION'',
               ''MASKS_ONLY'', ''LIDAR_DATA_ONLY'', ''from_img_3D'', ''to_img_3D'',
               ''from_img_2D'', ''to_img_2D'', ''FLIP'', ''SCALE_FACTOR'', ''ROT_FACTOR'',
               ''TRANSLATE'', ''SHEAR'', ''COLOR_RGB'', ''HSV_H'', ''HSV_S'', ''HSV_V''] \<rparr>),
         (''TRAIN'',
          \<lparr> new_allowed = True,
            keys =
              [''LR0'', ''LRF'', ''WARMUP_EPOCHS'', ''WARMUP_BIASE_LR'', ''WARMUP_MOMENTUM'',
               ''OPTIMIZER'', ''MOMENTUM'', ''WD'', ''NESTEROV'', ''GAMMA1'', ''GAMMA2'',
               ''BEGIN_EPOCH'', ''END_EPOCH'', ''VAL_FREQ'', ''BATCH_SIZE'', ''SHUFFLE'',
               ''SAVE_LOCALLY_PER_BATCH''] \<rparr>),
         (''TEST'', \<lparr> new_allowed = True, keys = [''BATCH_SIZE'', ''PLOTS''] \<rparr>)] \<rparr>"

text \<open>
  Modelled from the spec: the loader of configurations is the yacs library's and is
  missing from the sources, and neither source file calls it. By the specification, a
  loaded configuration is rejected when it has a key that the schema does not declare,
  unless the node that would hold the key is marked open for extension. A loaded
  configuration is given by its keys, each at the top level or inside a group.
\<close>

datatype entry = TopKey string | GroupKey string string

definition accepts :: "schema \<Rightarrow> entry \<Rightarrow> bool" where
  "accepts sc en =
    (case en of
       TopKey k \<Rightarrow> k \<in> set (root_keys sc) \<or> k \<in> set (map fst (groups sc)) \<or> root_new_allowed sc
     | GroupKey g k \<Rightarrow>
         (case map_of (groups sc) g of
            None \<Rightarrow> root_new_allowed sc
          | Some grp \<Rightarrow> k \<in> set (keys grp) \<or> new_allowed grp))"

definition load_cfg :: "schema \<Rightarrow> entry list \<Rightarrow> error + unit" where
  "load_cfg sc ens = (if list_all (accepts sc) ens then Inr () else Inl KeyError)"

section \<open>The specification's formulas\<close>

text \<open>
  The learning rate as the specification writes it, to be compared with what \<open>lf\<close> and
  the scheduler compute.
\<close>

definition lr_formula :: "real \<Rightarrow> real \<Rightarrow> int \<Rightarrow> int \<Rightarrow> real" where
  "lr_formula lr0 lrf end_epoch epoch =
    lr0 * (((1 + cos (real_of_int epoch * pi / real_of_int end_epoch)) / 2) * (1 - lrf) + lrf)"

section \<open>Concrete environments\<close>

text \<open>
  A small environment on which the program can be run: the model is a number that each
  training pass increases by one, the optimizer has no state but its rate, every dataset
  has ten items, and a training pass adds the number of batches to the step counter.
\<close>

definition sample_env :: "(nat, unit) env" where
  "sample_env =
    \<lparr> cfg_kitti = waymo_C,
      cfg_waymo = waymo_C,
      RANK = None,
      int_of_str = (\<lambda>v. None),
      create_logger = (\<lambda>c d phase. (d @ ''out'', d @ ''tb'')),
      PSPNet = 0,
      get_optimizer = (\<lambda>c m. \<lparr> lr = LR0 (TRAIN c), opt_rest = () \<rparr>),
      dataset_len = (\<lambda>k c tr p sp fr to. 10),
      loader_len = (\<lambda>ws n b. if b = 0 then 0 else nat (n div b)),
      train = (\<lambda>c epoch num_batch num_warmup m opt wd.
                 (Suc m, opt, wd\<lparr>train_global_steps := train_global_steps wd + int num_batch\<rparr>)) \<rparr>"

definition empty_world :: "(nat, unit) world" where
  "empty_world = \<lparr> files = (\<lambda>p. None), trace = [] \<rparr>"

definition sample_dataset :: "63 word \<Rightarrow> dataset" where
  "sample_dataset n =
    \<lparr> ds_class = SegmDataset2D, ds_is_train = True, ds_data_path = ''data'',
      ds_split = ''train'', ds_from_img = None, ds_to_img = None, ds_name = ''Segmentation 2D'',
      ds_len = n \<rparr>"

definition with_epochs :: "int \<Rightarrow> int \<Rightarrow> cfg \<Rightarrow> cfg" where
  "with_epochs b e c = c\<lparr>TRAIN := (TRAIN c)\<lparr>BEGIN_EPOCH := b, END_EPOCH := e\<rparr>\<rparr>"

text \<open>A store that holds a checkpoint written at epoch 5, and the arguments that name it.\<close>

definition epoch5_checkpoint :: "(nat, unit) checkpoint" where
  "epoch5_checkpoint =
    \<lparr> ck_epoch = 5, ck_model_name = [], ck_state_dict = 5,
      ck_optimizer = \<lparr> lr = 0.001, opt_rest = () \<rparr> \<rparr>"

definition resume_world :: "(nat, unit) world" where
  "resume_world =
    \<lparr> files = (\<lambda>p. if p = ''runs/epoch-5.pth'' then Some (CheckpointFile epoch5_checkpoint)
                     else None),
      trace = [] \<rparr>"

definition resume_args :: args where
  "resume_args = default_args\<lparr>load_from := Some ''runs/epoch-5.pth''\<rparr>"

text \<open>Configurations with both single-source flags set, and with the lidar flag alone.\<close>

definition masks_and_lidar_cfg :: cfg where
  "masks_and_lidar_cfg =
    waymo_C\<lparr>DATASET := (DATASET waymo_C)\<lparr>MASKS_ONLY := True, LIDAR_DATA_ONLY := True\<rparr>\<rparr>"

definition lidar_only_cfg :: cfg where
  "lidar_only_cfg = waymo_C\<lparr>DATASET := (DATASET waymo_C)\<lparr>LIDAR_DATA_ONLY := True\<rparr>\<rparr>"


definition no_items :: dataset_len_fn where
  "no_items = (\<lambda>k c tr p sp fr to. 0)"

text \<open>What identifies a written checkpoint: directory, file name, epoch and model name.\<close>

definition ckinfo :: "string \<times> string \<times> ('m, 'o) checkpoint \<Rightarrow> string \<times> string \<times> int \<times> string" where
  "ckinfo x = (case x of (d, f, ck) \<Rightarrow> (d, f, ck_epoch ck, ck_model_name ck))"

text \<open>A state in which the epoch loop can be started.\<close>

definition sample_state :: "(nat, unit) run_state" where
  "sample_state =
    \<lparr> model = 0, optimizer = \<lparr> lr = 0.001, opt_rest = () \<rparr>,
      lr_scheduler = \<lparr> base_lr = 0.001, last_epoch = 0 \<rparr>,
      writer = \<lparr> train_global_steps = 0, valid_global_steps = 0 \<rparr>,
      world = empty_world \<rparr>"

section \<open>Reading the mixer's result\<close>

text \<open>
  The budget of one dataset, line 184, and the list of budgets of a run of the loop that
  raises nowhere.
\<close>

definition budget :: "float64 \<Rightarrow> dataset \<Rightarrow> error + int" where
  "budget f d = py_int (fraction_times_len f (ds_len d))"

definition budgets :: "dataset list \<Rightarrow> float64 list \<Rightarrow> int list" where
  "budgets ds fs = map2 (\<lambda>f d. case budget f d of Inr b \<Rightarrow> b | Inl e \<Rightarrow> 0) fs ds"



section \<open>Properties of the configuration update and of the dataset type\<close>

text \<open>
  Claim C8. \<^verbatim>\<open>update_config\<close> always returns; the configuration it leaves differs
  from the one it was given in \<open>LOG_DIR\<close> alone, which becomes \<^verbatim>\<open>--logDir\<close> when
  that argument is not empty, and in the immutability flag, which ends set. The
  arguments \<^verbatim>\<open>--load_from\<close> and \<^verbatim>\<open>--dataset_type\<close> have no effect on the result.
\<close>
theorem update_config_frame:
  "update_config c a =
     Inr ((if truthy (logDir a) then c\<lparr>LOG_DIR := logDir a\<rparr> else c)\<lparr>frozen := True\<rparr>)
   \<and> update_config c (a\<lparr>load_from := l, dataset_type := d\<rparr>) = update_config c a"
  by (simp add: update_config_def defrost_def freeze_def set_LOG_DIR_def)

text \<open>
  Claim C5. With a dataset type other than \<^verbatim>\<open>waymo\<close> and \<^verbatim>\<open>kitti\<close> the program
  raises \<^verbatim>\<open>ValueError\<close> in the state it started in: nothing was logged, created or
  written. With either accepted value it goes on with the matching configuration.
\<close>
theorem dataset_type_gate:
  "(dataset_type a \<noteq> ''waymo'' \<and> dataset_type a \<noteq> ''kitti''
      \<longrightarrow> main env a w0 = Raised ValueError w0)
   \<and> (dataset_type a = ''waymo'' \<longrightarrow> main env a w0 = main_configured env a (cfg_waymo env) w0)
   \<and> (dataset_type a = ''kitti'' \<longrightarrow> main env a w0 = main_configured env a (cfg_kitti env) w0)"
  by (simp add: main_def select_cfg_def)

theorem dataset_type_gate_witness:
  "main sample_env (default_args\<lparr>dataset_type := ''imagenet''\<rparr>) empty_world
     = Raised ValueError empty_world
   \<and> main sample_env default_args empty_world
     = main_configured sample_env default_args (cfg_waymo sample_env) empty_world
   \<and> main sample_env (default_args\<lparr>dataset_type := ''kitti''\<rparr>) empty_world
     = main_configured sample_env (default_args\<lparr>dataset_type := ''kitti''\<rparr>)
         (cfg_kitti sample_env) empty_world"
  using dataset_type_gate [of "default_args\<lparr>dataset_type := ''imagenet''\<rparr>" sample_env empty_world]
    dataset_type_gate [of default_args sample_env empty_world]
    dataset_type_gate [of "default_args\<lparr>dataset_type := ''kitti''\<rparr>" sample_env empty_world]
  by (simp add: default_args_def)

section \<open>Properties of the schema\<close>

text \<open>
  Claim C4. A key that a group of the schema does not declare is rejected at load time
  exactly when the group is not marked open for extension. The groups \<^verbatim>\<open>MODEL\<close>,
  \<^verbatim>\<open>LOSS\<close>, \<^verbatim>\<open>DATASET\<close>, \<^verbatim>\<open>TRAIN\<close> and \<^verbatim>\<open>TEST\<close> are all marked open, so
  every key is accepted inside them; the root and \<^verbatim>\<open>CUDNN\<close> are closed, so a key
  they do not declare is rejected.
\<close>

theorem closed_schema_per_group:
  "(map_of (groups waymo_schema) g = Some grp \<and> k \<notin> set (keys grp) \<longrightarrow>
      (load_cfg waymo_schema [GroupKey g k] = Inl KeyError) = (\<not> new_allowed grp))
   \<and> (g \<in> {''MODEL'', ''LOSS'', ''DATASET'', ''TRAIN'', ''TEST''} \<longrightarrow>
        (\<exists>grp. map_of (groups waymo_schema) g = Some grp \<and> new_allowed grp)
        \<and> load_cfg waymo_schema [GroupKey g k] = Inr ())
   \<and> (k \<notin> set (root_keys waymo_schema) \<and> k \<notin> set (map fst (groups waymo_schema)) \<longrightarrow>
        load_cfg waymo_schema [TopKey k] = Inl KeyError)
   \<and> (k \<notin> {''BENCHMARK'', ''DETERMINISTIC'', ''ENABLED''} \<longrightarrow>
        load_cfg waymo_schema [GroupKey ''CUDNN'' k] = Inl KeyError)"
proof (intro conjI impI)
  assume "map_of (groups waymo_schema) g = Some grp \<and> k \<notin> set (keys grp)"
  then show "(load_cfg waymo_schema [GroupKey g k] = Inl KeyError) = (\<not> new_allowed grp)"
    by (simp add: load_cfg_def accepts_def)
next
  assume g: "g \<in> {''MODEL'', ''LOSS'', ''DATASET'', ''TRAIN'', ''TEST''}"
  then show "\<exists>grp. map_of (groups waymo_schema) g = Some grp \<and> new_allowed grp"
    by (auto simp: waymo_schema_def)
  with g show "load_cfg waymo_schema [GroupKey g k] = Inr ()"
    by (auto simp: load_cfg_def accepts_def)
next
  assume "k \<notin> set (root_keys waymo_schema) \<and> k \<notin> set (map fst (groups waymo_schema))"
  then show "load_cfg waymo_schema [TopKey k] = Inl KeyError"
    by (simp add: load_cfg_def accepts_def waymo_schema_def)
next
  assume "k \<notin> {''BENCHMARK'', ''DETERMINISTIC'', ''ENABLED''}"
  then show "load_cfg waymo_schema [GroupKey ''CUDNN'' k] = Inl KeyError"
    by (simp add: load_cfg_def accepts_def waymo_schema_def)
qed

theorem closed_schema_per_group_witness:
  "map_of (groups waymo_schema) ''CUDNN''
     = Some \<lparr> new_allowed = False, keys = [''BENCHMARK'', ''DETERMINISTIC'', ''ENABLED''] \<rparr>
   \<and> load_cfg waymo_schema [GroupKey ''CUDNN'' ''FAST''] = Inl KeyError
   \<and> load_cfg waymo_schema [GroupKey ''TRAIN'' ''FAST''] = Inr ()
   \<and> load_cfg waymo_schema [TopKey ''FAST''] = Inl KeyError"
  using closed_schema_per_group [of "''CUDNN''"
      "\<lparr> new_allowed = False, keys = [''BENCHMARK'', ''DETERMINISTIC'', ''ENABLED''] \<rparr>"
      "''FAST''"]
    closed_schema_per_group [of "''TRAIN''"
      "\<lparr> new_allowed = False, keys = [''BENCHMARK'', ''DETERMINISTIC'', ''ENABLED''] \<rparr>"
      "''FAST''"]
  by (simp add: waymo_schema_def)

section \<open>Properties of the epoch controller\<close>

lemma train_entries_simps:
  "train_entries [] = []"
  "train_entries (ev # tr) =
     (case ev of Train epoch st \<Rightarrow> [(epoch, st)] | _ \<Rightarrow> []) @ train_entries tr"
  "train_entries (tr @ tr') = train_entries tr @ train_entries tr'"
  by (simp_all add: train_entries_def)

lemma checkpoints_saved_simps:
  "checkpoints_saved [] = []"
  "checkpoints_saved (ev # tr) =
     (case ev of SaveCheckpoint d f ck \<Rightarrow> [(d, f, ck)] | _ \<Rightarrow> []) @ checkpoints_saved tr"
  "checkpoints_saved (tr @ tr') = checkpoints_saved tr @ checkpoints_saved tr'"
  by (simp_all add: checkpoints_saved_def)

lemma finals_saved_simps:
  "finals_saved [] = []"
  "finals_saved (ev # tr) =
     (case ev of SaveFinal f m \<Rightarrow> [(f, m)] | _ \<Rightarrow> []) @ finals_saved tr"
  "finals_saved (tr @ tr') = finals_saved tr @ finals_saved tr'"
  by (simp_all add: finals_saved_def)

lemma validations_simps:
  "validations [] = []"
  "validations (ev # tr) =
     (case ev of Validate epoch \<Rightarrow> [epoch] | _ \<Rightarrow> []) @ validations tr"
  "validations (tr @ tr') = validations tr @ validations tr'"
  by (simp_all add: validations_def)

lemma scheduler_steps_simps:
  "scheduler_steps [] = 0"
  "scheduler_steps (ev # tr) = (if ev = SchedulerStep then 1 else 0) + scheduler_steps tr"
  "scheduler_steps (tr @ tr') = scheduler_steps tr + scheduler_steps tr'"
  by (simp_all add: scheduler_steps_def)

lemmas snoc_readers =
  train_entries_simps checkpoints_saved_simps finals_saved_simps validations_simps
  scheduler_steps_simps

lemmas body_defs =
  epoch_body_def run_train_def scheduler_step_def LambdaLR_step_def lf_def
  validation_step_def checkpoint_step_def emit_def log_event_def save_checkpoint_def Let_def

lemma epoch_body_Done:
  assumes "epoch_body env c rank nb nw out epoch s = Done s'"
  shows "train_entries (trace (world s')) =
           train_entries (trace (world s)) @ [(epoch, train_global_steps (writer s))]"
    and "checkpoints_saved (trace (world s')) =
           checkpoints_saved (trace (world s)) @
             (if epoch mod 5 = 0
              then [(out, ''epoch-'' @ str_int epoch @ ''.pth'',
                     \<lparr> ck_epoch = epoch, ck_model_name = NAME (MODEL c),
                       ck_state_dict = model s', ck_optimizer = optimizer s' \<rparr>)]
              else [])"
    and "finals_saved (trace (world s')) = finals_saved (trace (world s))"
    and "validations (trace (world s')) =
           validations (trace (world s)) @
             (if epoch mod VAL_FREQ (TRAIN c) = 0 \<or> epoch = END_EPOCH (TRAIN c) then [epoch]
              else [])"
    and "scheduler_steps (trace (world s')) = Suc (scheduler_steps (trace (world s)))"
    and "last_epoch (lr_scheduler s') = last_epoch (lr_scheduler s) + 1"
    and "base_lr (lr_scheduler s') = base_lr (lr_scheduler s)"
    and "lr (optimizer s') =
           lr_formula (base_lr (lr_scheduler s)) (LRF (TRAIN c)) (END_EPOCH (TRAIN c))
             (last_epoch (lr_scheduler s) + 1)"
    and "END_EPOCH (TRAIN c) \<noteq> 0" and "VAL_FREQ (TRAIN c) \<noteq> 0"
  using assms
  by (auto simp: body_defs snoc_readers lr_formula_def
      split: if_splits sum.splits prod.splits outcome.splits)

lemma epoch_body_returns:
  assumes "END_EPOCH (TRAIN c) \<noteq> 0" and "VAL_FREQ (TRAIN c) \<noteq> 0"
  shows "\<exists>s'. epoch_body env c rank nb nw out epoch s = Done s'"
  using assms
  by (auto simp: body_defs split: if_splits sum.splits prod.splits outcome.splits)

lemma epoch_loop_Cons_Done:
  assumes "epoch_loop env c rank nb nw out (e # es) s = Done s'"
  obtains s1 where "epoch_body env c rank nb nw out e s = Done s1"
    and "epoch_loop env c rank nb nw out es s1 = Done s'"
  using assms by (auto split: outcome.splits)

lemma epoch_loop_entries:
  assumes "epoch_loop env c rank nb nw out es s = Done s'"
  shows "\<exists>ents. train_entries (trace (world s')) = train_entries (trace (world s)) @ ents
           \<and> map fst ents = es
           \<and> (es \<noteq> [] \<longrightarrow> snd (hd ents) = train_global_steps (writer s))"
  using assms
proof (induction es arbitrary: s)
  case Nil
  then show ?case by simp
next
  case (Cons e es)
  from Cons.prems obtain s1 where b: "epoch_body env c rank nb nw out e s = Done s1"
    and l: "epoch_loop env c rank nb nw out es s1 = Done s'"
    by (rule epoch_loop_Cons_Done)
  from Cons.IH [OF l] obtain ents where
    ents: "train_entries (trace (world s')) = train_entries (trace (world s1)) @ ents"
      "map fst ents = es"
    by blast
  let ?ents = "(e, train_global_steps (writer s)) # ents"
  have A: "train_entries (trace (world s')) = train_entries (trace (world s)) @ ?ents"
    using ents(1) epoch_body_Done(1) [OF b] by simp
  have B: "map fst ?ents = e # es" using ents(2) by simp
  have C: "snd (hd ?ents) = train_global_steps (writer s)" by simp
  show ?case
    by (rule exI [of _ ?ents]) (simp only: A B C simp_thms)
qed

lemma epoch_loop_checkpoints:
  assumes "epoch_loop env c rank nb nw out es s = Done s'"
  shows "map ckinfo (checkpoints_saved (trace (world s'))) =
           map ckinfo (checkpoints_saved (trace (world s))) @
           map (\<lambda>e. (out, ''epoch-'' @ str_int e @ ''.pth'', e, NAME (MODEL c)))
             (filter (\<lambda>e. e mod 5 = 0) es)"
  using assms
proof (induction es arbitrary: s)
  case Nil
  then show ?case by simp
next
  case (Cons e es)
  from Cons.prems obtain s1 where b: "epoch_body env c rank nb nw out e s = Done s1"
    and l: "epoch_loop env c rank nb nw out es s1 = Done s'"
    by (rule epoch_loop_Cons_Done)
  show ?case
    using Cons.IH [OF l] epoch_body_Done(2) [OF b] by (simp add: ckinfo_def)
qed

lemma epoch_loop_finals:
  assumes "epoch_loop env c rank nb nw out es s = Done s'"
  shows "finals_saved (trace (world s')) = finals_saved (trace (world s))"
  using assms
proof (induction es arbitrary: s)
  case Nil
  then show ?case by simp
next
  case (Cons e es)
  from Cons.prems obtain s1 where b: "epoch_body env c rank nb nw out e s = Done s1"
    and l: "epoch_loop env c rank nb nw out es s1 = Done s'"
    by (rule epoch_loop_Cons_Done)
  show ?case
    using Cons.IH [OF l] epoch_body_Done(3) [OF b] by simp
qed

lemma epoch_loop_validations:
  assumes "epoch_loop env c rank nb nw out es s = Done s'"
  shows "validations (trace (world s')) =
           validations (trace (world s)) @
           filter (\<lambda>e. e mod VAL_FREQ (TRAIN c) = 0 \<or> e = END_EPOCH (TRAIN c)) es"
  using assms
proof (induction es arbitrary: s)
  case Nil
  then show ?case by simp
next
  case (Cons e es)
  from Cons.prems obtain s1 where b: "epoch_body env c rank nb nw out e s = Done s1"
    and l: "epoch_loop env c rank nb nw out es s1 = Done s'"
    by (rule epoch_loop_Cons_Done)
  show ?case
    using Cons.IH [OF l] epoch_body_Done(4) [OF b] by simp
qed

lemma epoch_loop_scheduler:
  assumes "epoch_loop env c rank nb nw out es s = Done s'"
  shows "scheduler_steps (trace (world s')) = scheduler_steps (trace (world s)) + length es
       \<and> last_epoch (lr_scheduler s') = last_epoch (lr_scheduler s) + int (length es)
       \<and> base_lr (lr_scheduler s') = base_lr (lr_scheduler s)"
  using assms
proof (induction es arbitrary: s)
  case Nil
  then show ?case by simp
next
  case (Cons e es)
  from Cons.prems obtain s1 where b: "epoch_body env c rank nb nw out e s = Done s1"
    and l: "epoch_loop env c rank nb nw out es s1 = Done s'"
    by (rule epoch_loop_Cons_Done)
  show ?case
    using Cons.IH [OF l] epoch_body_Done(5,6,7) [OF b] by simp
qed

lemma epoch_loop_lr:
  assumes "epoch_loop env c rank nb nw out es s = Done s'" and "es \<noteq> []"
  shows "lr (optimizer s') =
           lr_formula (base_lr (lr_scheduler s)) (LRF (TRAIN c)) (END_EPOCH (TRAIN c))
             (last_epoch (lr_scheduler s) + int (length es))"
  using assms
proof (induction es arbitrary: s)
  case Nil
  then show ?case by simp
next
  case (Cons e es)
  from Cons.prems(1) obtain s1 where b: "epoch_body env c rank nb nw out e s = Done s1"
    and l: "epoch_loop env c rank nb nw out es s1 = Done s'"
    by (rule epoch_loop_Cons_Done)
  show ?case
  proof (cases "es = []")
    case True
    with l have "s' = s1" by simp
    with True epoch_body_Done(8) [OF b] show ?thesis by simp
  next
    case False
    from Cons.IH [OF l False] epoch_body_Done(6,7) [OF b] show ?thesis
      by (simp add: ac_simps)
  qed
qed

lemma epoch_loop_returns:
  assumes "END_EPOCH (TRAIN c) \<noteq> 0" and "VAL_FREQ (TRAIN c) \<noteq> 0"
  shows "\<exists>s'. epoch_loop env c rank nb nw out es s = Done s'"
proof (induction es arbitrary: s)
  case Nil
  then show ?case by simp
next
  case (Cons e es)
  from epoch_body_returns [OF assms] obtain s1 where
    "epoch_body env c rank nb nw out e s = Done s1" by blast
  with Cons.IH [of s1] show ?case by simp
qed

lemma save_final_facts:
  "trace (world (save_final out s)) =
     trace (world s) @ [SaveFinal (path_join out ''final_state.pth'') (model s), CloseWriter]"
  "files (world (save_final out s)) (path_join out ''final_state.pth'') = Some (StateFile (model s))"
  "model (save_final out s) = model s"
  "optimizer (save_final out s) = optimizer s"
  "lr_scheduler (save_final out s) = lr_scheduler s"
  "writer (save_final out s) = writer s"
  by (simp_all add: save_final_def torch_save_state_def log_event_def)

lemma main_training_Done:
  assumes "main_training env c rank nb out b s = Done s''"
  obtains s' where
    "epoch_loop env c rank nb (max (py_round (WARMUP_EPOCHS (TRAIN c) * real nb)) 1000) out
       [b + 1 .. END_EPOCH (TRAIN c)] s = Done s'"
    and "s'' = save_final out s'"
  using assms by (auto simp: main_training_def Let_def split: outcome.splits)

lemma main_training_returns:
  assumes "END_EPOCH (TRAIN c) \<noteq> 0" and "VAL_FREQ (TRAIN c) \<noteq> 0"
  shows "\<exists>s'. main_training env c rank nb out b s = Done s'"
proof -
  from epoch_loop_returns [OF assms] obtain s' where
    "epoch_loop env c rank nb (max (py_round (WARMUP_EPOCHS (TRAIN c) * real nb)) 1000) out
       [b + 1 .. END_EPOCH (TRAIN c)] s = Done s'" by blast
  then show ?thesis by (simp add: main_training_def Let_def)
qed

lemma upto_snoc: "i \<le> j + 1 \<Longrightarrow> [i .. j + 1] = [i .. j] @ [j + (1::int)]"
  using upto_rec2 [of i "j + 1"] by simp

lemma upto_five_more:
  assumes "0 \<le> m"
  shows "[1 .. 5 * m + 5] = [1 .. 5 * m] @ [5 * m + 1, 5 * m + 2, 5 * m + 3, 5 * m + 4, 5 * m + 5]"
proof -
  have "[1 .. 5 * m + 5] = [1 .. (5 * m + 4) + 1]" by (simp add: algebra_simps)
  also have "\<dots> = [1 .. 5 * m + 4] @ [5 * m + 4 + 1]"
    using assms by (intro upto_snoc) simp
  also have "[1 .. 5 * m + 4] = [1 .. (5 * m + 3) + 1]" by (simp add: algebra_simps)
  also have "\<dots> = [1 .. 5 * m + 3] @ [5 * m + 3 + 1]"
    using assms by (intro upto_snoc) simp
  also have "[1 .. 5 * m + 3] = [1 .. (5 * m + 2) + 1]" by (simp add: algebra_simps)
  also have "\<dots> = [1 .. 5 * m + 2] @ [5 * m + 2 + 1]"
    using assms by (intro upto_snoc) simp
  also have "[1 .. 5 * m + 2] = [1 .. (5 * m + 1) + 1]" by (simp add: algebra_simps)
  also have "\<dots> = [1 .. 5 * m + 1] @ [5 * m + 1 + 1]"
    using assms by (intro upto_snoc) simp
  also have "[1 .. 5 * m + 1] = [1 .. 5 * m] @ [5 * m + 1]"
    using assms by (intro upto_snoc) simp
  finally show ?thesis by simp
qed

lemma every_fifth_upto:
  "filter (\<lambda>e. e mod 5 = 0) [1 .. 5 * int n] = map (\<lambda>k. 5 * k) [1 .. int n]"
proof (induction n)
  case 0
  then show ?case by simp
next
  case (Suc n)
  have a: "5 * int (Suc n) = 5 * int n + 5" by simp
  have b: "[1 .. int (Suc n)] = [1 .. int n] @ [int n + 1]"
    using upto_snoc [of 1 "int n"] by (simp add: add.commute)
  have m: "(5 * int n + 1) mod 5 \<noteq> 0" "(5 * int n + 2) mod 5 \<noteq> 0"
    "(5 * int n + 3) mod 5 \<noteq> 0" "(5 * int n + 4) mod 5 \<noteq> 0" "(5 * int n + 5) mod 5 = 0"
    by presburger+
  have five: "[1 .. 5 * int n + 5] =
      [1 .. 5 * int n] @ [5 * int n + 1, 5 * int n + 2, 5 * int n + 3, 5 * int n + 4, 5 * int n + 5]"
    by (rule upto_five_more) simp
  have "filter (\<lambda>e. e mod 5 = 0) [1 .. 5 * int (Suc n)] =
      filter (\<lambda>e. e mod 5 = 0) [1 .. 5 * int n] @ [5 * int n + 5]"
    unfolding a five filter_append using m by simp
  also have "\<dots> = map (\<lambda>k. 5 * k) [1 .. int n] @ [5 * (int n + 1)]"
    using Suc.IH by (simp add: algebra_simps)
  also have "\<dots> = map (\<lambda>k. 5 * k) [1 .. int (Suc n)]"
    unfolding b by simp
  finally show ?case .
qed

lemma every_fifth: "filter (\<lambda>e. e mod 5 = 0) [1 .. 200] = map (\<lambda>k. 5 * k) [1 .. (40::int)]"
proof -
  have a: "5 * (40::int) = 200" and b: "int 40 = 40" by simp_all
  show ?thesis using every_fifth_upto [of 40] unfolding b a .
qed

lemma lr_formula_0: "lr_formula lr0 lrf e 0 = lr0"
  by (simp add: lr_formula_def algebra_simps)

lemma lr_formula_end: "e \<noteq> 0 \<Longrightarrow> lr_formula lr0 lrf e e = lr0 * lrf"
  by (simp add: lr_formula_def)

lemma lf_value:
  "END_EPOCH (TRAIN c) \<noteq> 0 \<Longrightarrow>
   lf c x = Inr (lr_formula 1 (LRF (TRAIN c)) (END_EPOCH (TRAIN c)) x)"
  by (simp add: lf_def lr_formula_def)

lemma LambdaLR_value:
  "END_EPOCH (TRAIN c) \<noteq> 0 \<Longrightarrow>
   LambdaLR c opt = Inr (\<lparr> base_lr = lr opt, last_epoch = 0 \<rparr>, opt)"
  by (simp add: LambdaLR_def lf_def)

lemma LambdaLR_fails: "(LambdaLR c opt = Inl e) = (END_EPOCH (TRAIN c) = 0 \<and> e = ZeroDivisionError)"
  by (auto simp: LambdaLR_def lf_def)

lemma waymo_epochs:
  "BEGIN_EPOCH (TRAIN waymo_C) = 0" "END_EPOCH (TRAIN waymo_C) = 200"
  "VAL_FREQ (TRAIN waymo_C) = 1" "LRF (TRAIN waymo_C) = 1 / 2"
  by (simp_all add: waymo_C_def)

lemma sample_state_trace:
  "trace (world sample_state) = []"
  by (simp add: sample_state_def empty_world_def)

lemma main_training_empty:
  assumes "END_EPOCH (TRAIN c) \<le> b"
  shows "main_training env c rank nb out b s = Done (save_final out s)"
  using assms by (simp add: main_training_def Let_def)

text \<open>
  Claim C6. With \<^verbatim>\<open>END_EPOCH\<close> different from 0, the factor \<open>lf\<close> is the
  specification's formula with \<open>lr0 = 1\<close>; constructing the scheduler leaves the rate
  at \<open>lr0\<close>, which is the formula at epoch 0; the formula at \<^verbatim>\<open>END_EPOCH\<close> is
  \<open>lr0 * lrf\<close>; every iteration of the epoch loop steps the scheduler exactly once and
  leaves the rate at the formula's value for the new counter; and a loop over the epochs
  1 to \<^verbatim>\<open>END_EPOCH\<close> that starts from a fresh scheduler makes \<^verbatim>\<open>END_EPOCH\<close> steps
  and ends with the rate \<open>lr0 * lrf\<close>. Floats are read as reals.
\<close>

theorem cosine_schedule:
  "END_EPOCH (TRAIN c) \<noteq> 0 \<longrightarrow>
     lf c x = Inr (lr_formula 1 (LRF (TRAIN c)) (END_EPOCH (TRAIN c)) x)
     \<and> LambdaLR c opt = Inr (\<lparr> base_lr = lr opt, last_epoch = 0 \<rparr>, opt)
     \<and> lr_formula lr0 (LRF (TRAIN c)) (END_EPOCH (TRAIN c)) 0 = lr0
     \<and> lr_formula lr0 (LRF (TRAIN c)) (END_EPOCH (TRAIN c)) (END_EPOCH (TRAIN c))
         = lr0 * LRF (TRAIN c)
     \<and> (epoch_body env c rank nb nw out epoch s = Done s' \<longrightarrow>
          scheduler_steps (trace (world s')) = Suc (scheduler_steps (trace (world s)))
          \<and> last_epoch (lr_scheduler s') = last_epoch (lr_scheduler s) + 1
          \<and> base_lr (lr_scheduler s') = base_lr (lr_scheduler s)
          \<and> lr (optimizer s') =
              lr_formula (base_lr (lr_scheduler s)) (LRF (TRAIN c)) (END_EPOCH (TRAIN c))
                (last_epoch (lr_scheduler s) + 1))
     \<and> (last_epoch (lr_scheduler s) = 0 \<and> 0 < END_EPOCH (TRAIN c)
          \<and> epoch_loop env c rank nb nw out [1 .. END_EPOCH (TRAIN c)] s = Done s' \<longrightarrow>
          scheduler_steps (trace (world s'))
            = scheduler_steps (trace (world s)) + nat (END_EPOCH (TRAIN c))
          \<and> last_epoch (lr_scheduler s') = END_EPOCH (TRAIN c)
          \<and> lr (optimizer s') = base_lr (lr_scheduler s) * LRF (TRAIN c))"
proof (intro impI conjI)
  assume e: "END_EPOCH (TRAIN c) \<noteq> 0"
  show "lf c x = Inr (lr_formula 1 (LRF (TRAIN c)) (END_EPOCH (TRAIN c)) x)"
    by (rule lf_value [OF e])
  show "LambdaLR c opt = Inr (\<lparr> base_lr = lr opt, last_epoch = 0 \<rparr>, opt)"
    by (rule LambdaLR_value [OF e])
  show "lr_formula lr0 (LRF (TRAIN c)) (END_EPOCH (TRAIN c)) 0 = lr0"
    by (rule lr_formula_0)
  show "lr_formula lr0 (LRF (TRAIN c)) (END_EPOCH (TRAIN c)) (END_EPOCH (TRAIN c))
         = lr0 * LRF (TRAIN c)"
    by (rule lr_formula_end [OF e])
next
  assume b: "epoch_body env c rank nb nw out epoch s = Done s'"
  show "scheduler_steps (trace (world s')) = Suc (scheduler_steps (trace (world s)))"
    by (rule epoch_body_Done(5) [OF b])
  show "last_epoch (lr_scheduler s') = last_epoch (lr_scheduler s) + 1"
    by (rule epoch_body_Done(6) [OF b])
  show "base_lr (lr_scheduler s') = base_lr (lr_scheduler s)"
    by (rule epoch_body_Done(7) [OF b])
  show "lr (optimizer s') =
          lr_formula (base_lr (lr_scheduler s)) (LRF (TRAIN c)) (END_EPOCH (TRAIN c))
            (last_epoch (lr_scheduler s) + 1)"
    by (rule epoch_body_Done(8) [OF b])
next
  assume e: "END_EPOCH (TRAIN c) \<noteq> 0"
  assume a: "last_epoch (lr_scheduler s) = 0 \<and> 0 < END_EPOCH (TRAIN c)
          \<and> epoch_loop env c rank nb nw out [1 .. END_EPOCH (TRAIN c)] s = Done s'"
  then have l: "epoch_loop env c rank nb nw out [1 .. END_EPOCH (TRAIN c)] s = Done s'"
    and z: "last_epoch (lr_scheduler s) = 0" and p: "0 < END_EPOCH (TRAIN c)" by simp_all
  have len: "length [1 .. END_EPOCH (TRAIN c)] = nat (END_EPOCH (TRAIN c))" by simp
  from p have ne: "[1 .. END_EPOCH (TRAIN c)] \<noteq> []" by simp
  show "scheduler_steps (trace (world s'))
            = scheduler_steps (trace (world s)) + nat (END_EPOCH (TRAIN c))"
    using epoch_loop_scheduler [OF l] len by simp
  show "last_epoch (lr_scheduler s') = END_EPOCH (TRAIN c)"
    using epoch_loop_scheduler [OF l] len z p by simp
  show "lr (optimizer s') = base_lr (lr_scheduler s) * LRF (TRAIN c)"
    using epoch_loop_lr [OF l ne] len z p lr_formula_end [OF e] by simp
qed

theorem cosine_schedule_witness:
  "END_EPOCH (TRAIN waymo_C) \<noteq> 0
   \<and> lf waymo_C 200 = Inr (lr_formula 1 (1 / 2) 200 200)
   \<and> lr_formula (1 / 1000) (1 / 2) 200 200 = 1 / 1000 * (1 / 2)
   \<and> (\<exists>s'. epoch_body sample_env waymo_C (- 1) 3 1000 ''out'' 1 sample_state = Done s'
         \<and> last_epoch (lr_scheduler s') = last_epoch (lr_scheduler sample_state) + 1)
   \<and> last_epoch (lr_scheduler sample_state) = 0 \<and> 0 < END_EPOCH (TRAIN waymo_C)
   \<and> (\<exists>s'. epoch_loop sample_env waymo_C (- 1) 3 1000 ''out'' [1 .. 200] sample_state = Done s'
         \<and> last_epoch (lr_scheduler s') = 200
         \<and> lr (optimizer s') = base_lr (lr_scheduler sample_state) * (1 / 2))"
proof -
  have e: "END_EPOCH (TRAIN waymo_C) \<noteq> 0" and v: "VAL_FREQ (TRAIN waymo_C) \<noteq> 0"
    by (simp_all add: waymo_epochs)
  have z: "last_epoch (lr_scheduler sample_state) = 0" by (simp add: sample_state_def)
  from epoch_body_returns [OF e v] obtain s1 where
    b: "epoch_body sample_env waymo_C (- 1) 3 1000 ''out'' 1 sample_state = Done s1" by blast
  from epoch_loop_returns [OF e v] obtain s2 where
    l: "epoch_loop sample_env waymo_C (- 1) 3 1000 ''out'' [1 .. END_EPOCH (TRAIN waymo_C)]
          sample_state = Done s2" by blast
  note T1 = cosine_schedule [where c = waymo_C and x = 200 and ?lr0.0 = "1 / 1000"
      and opt = "optimizer sample_state" and env = sample_env and rank = "- 1" and nb = 3 and nw = 1000 and out = "''out''"
      and epoch = 1 and s = sample_state and s' = s1, rule_format, OF e]
  note T2 = cosine_schedule [where c = waymo_C and x = 200 and ?lr0.0 = "1 / 1000"
      and opt = "optimizer sample_state" and epoch = 1 and env = sample_env and rank = "- 1"
      and nb = 3 and nw = 1000 and out = "''out''" and s = sample_state and s' = s2, rule_format, OF e]
  have A: "lf waymo_C 200 = Inr (lr_formula 1 (1 / 2) 200 200)"
    using T1 by (simp add: waymo_epochs)
  have B: "lr_formula (1 / 1000) (1 / 2) 200 200 = 1 / 1000 * (1 / 2)"
    using T1 by (simp add: waymo_epochs)
  have C: "last_epoch (lr_scheduler s1) = last_epoch (lr_scheduler sample_state) + 1"
    using T1 b by simp
  have D: "last_epoch (lr_scheduler s2) = 200
      \<and> lr (optimizer s2) = base_lr (lr_scheduler sample_state) * (1 / 2)"
    using T2 l z by (simp add: waymo_epochs)
  from l have l': "epoch_loop sample_env waymo_C (- 1) 3 1000 ''out'' [1 .. 200] sample_state = Done s2"
    by (simp add: waymo_epochs)
  from e A B b C z l' D show ?thesis by (simp add: waymo_epochs)
qed

text \<open>
  Claim C7. With \<^verbatim>\<open>BEGIN_EPOCH\<close> 0 and \<^verbatim>\<open>END_EPOCH\<close> 200 (and a validation
  frequency other than 0, so that the remainder of line 247 is defined) the training
  returns; the checkpoints it writes are, in order, those of the epochs 5, 10, ..., 200,
  each in the file named by its epoch and with the configured model name; the training
  passes are those of the epochs 1 to 200; one final artifact is written, it holds the
  model parameters alone and it is written after everything else but the closing of the
  writer. A checkpoint holds the epoch, the model name, and the model parameters and
  optimizer state as they are at the end of that epoch.
\<close>

theorem checkpoint_cadence:
  "(BEGIN_EPOCH (TRAIN c) = 0 \<and> END_EPOCH (TRAIN c) = 200 \<and> VAL_FREQ (TRAIN c) \<noteq> 0 \<longrightarrow>
     (\<exists>s'. main_training env c rank nb out (BEGIN_EPOCH (TRAIN c)) s = Done s'
        \<and> map ckinfo (checkpoints_saved (trace (world s'))) =
            map ckinfo (checkpoints_saved (trace (world s))) @
            map (\<lambda>k. (out, ''epoch-'' @ str_int (5 * k) @ ''.pth'', 5 * k, NAME (MODEL c)))
              [1 .. 40]
        \<and> map fst (train_entries (trace (world s'))) =
            map fst (train_entries (trace (world s))) @ [1 .. 200]
        \<and> finals_saved (trace (world s')) =
            finals_saved (trace (world s)) @ [(path_join out ''final_state.pth'', model s')]
        \<and> (\<exists>tr. trace (world s') =
              tr @ [SaveFinal (path_join out ''final_state.pth'') (model s'), CloseWriter])
        \<and> files (world s') (path_join out ''final_state.pth'') = Some (StateFile (model s'))))
   \<and> (epoch_body env c rank nb nw out epoch s1 = Done s2 \<longrightarrow>
        checkpoints_saved (trace (world s2)) =
          checkpoints_saved (trace (world s1)) @
            (if epoch mod 5 = 0
             then [(out, ''epoch-'' @ str_int epoch @ ''.pth'',
                    \<lparr> ck_epoch = epoch, ck_model_name = NAME (MODEL c),
                      ck_state_dict = model s2, ck_optimizer = optimizer s2 \<rparr>)]
             else []))"
proof (intro conjI impI)
  assume a: "BEGIN_EPOCH (TRAIN c) = 0 \<and> END_EPOCH (TRAIN c) = 200 \<and> VAL_FREQ (TRAIN c) \<noteq> 0"
  then have b0: "BEGIN_EPOCH (TRAIN c) = 0" and e200: "END_EPOCH (TRAIN c) = 200"
    and v: "VAL_FREQ (TRAIN c) \<noteq> 0" by simp_all
  from e200 have e: "END_EPOCH (TRAIN c) \<noteq> 0" by simp
  from main_training_returns [OF e v] obtain s'' where
    m: "main_training env c rank nb out (BEGIN_EPOCH (TRAIN c)) s = Done s''" by blast
  from m obtain s' where
    l: "epoch_loop env c rank nb (max (py_round (WARMUP_EPOCHS (TRAIN c) * real nb)) 1000) out
          [BEGIN_EPOCH (TRAIN c) + 1 .. END_EPOCH (TRAIN c)] s = Done s'"
    and fin: "s'' = save_final out s'"
    by (rule main_training_Done)
  have rng: "[BEGIN_EPOCH (TRAIN c) + 1 .. END_EPOCH (TRAIN c)] = [1 .. 200]"
    by (simp only: b0 e200 add_0)
  note l' = l [unfolded rng]
  have ck: "map ckinfo (checkpoints_saved (trace (world s''))) =
            map ckinfo (checkpoints_saved (trace (world s))) @
            map (\<lambda>k. (out, ''epoch-'' @ str_int (5 * k) @ ''.pth'', 5 * k, NAME (MODEL c)))
              [1 .. 40]"
    using epoch_loop_checkpoints [OF l']
    by (simp only: fin save_final_facts checkpoints_saved_simps every_fifth map_map comp_def
        event.case append_Nil2 list.map map_append)
  have tr: "map fst (train_entries (trace (world s''))) =
            map fst (train_entries (trace (world s))) @ [1 .. 200]"
  proof -
    from epoch_loop_entries [OF l'] obtain ents where
      "train_entries (trace (world s')) = train_entries (trace (world s)) @ ents"
      "map fst ents = [1 .. 200]" by blast
    then show ?thesis
      by (simp only: fin save_final_facts train_entries_simps event.case append_Nil2
          map_append)
  qed
  have fs: "finals_saved (trace (world s'')) =
            finals_saved (trace (world s)) @ [(path_join out ''final_state.pth'', model s'')]"
    using epoch_loop_finals [OF l']
    by (simp only: fin save_final_facts finals_saved_simps event.case append_Nil2 append_Nil)
  have last: "\<exists>tr. trace (world s'') =
              tr @ [SaveFinal (path_join out ''final_state.pth'') (model s''), CloseWriter]"
    by (simp only: fin save_final_facts) blast
  have fl: "files (world s'') (path_join out ''final_state.pth'') = Some (StateFile (model s''))"
    by (simp only: fin save_final_facts)
  from m ck tr fs last fl
  show "\<exists>s'. main_training env c rank nb out (BEGIN_EPOCH (TRAIN c)) s = Done s'
        \<and> map ckinfo (checkpoints_saved (trace (world s'))) =
            map ckinfo (checkpoints_saved (trace (world s))) @
            map (\<lambda>k. (out, ''epoch-'' @ str_int (5 * k) @ ''.pth'', 5 * k, NAME (MODEL c)))
              [1 .. 40]
        \<and> map fst (train_entries (trace (world s'))) =
            map fst (train_entries (trace (world s))) @ [1 .. 200]
        \<and> finals_saved (trace (world s')) =
            finals_saved (trace (world s)) @ [(path_join out ''final_state.pth'', model s')]
        \<and> (\<exists>tr. trace (world s') =
              tr @ [SaveFinal (path_join out ''final_state.pth'') (model s'), CloseWriter])
        \<and> files (world s') (path_join out ''final_state.pth'') = Some (StateFile (model s'))"
    by (intro exI [of _ s'']) (simp only: simp_thms)
next
  assume "epoch_body env c rank nb nw out epoch s1 = Done s2"
  then show "checkpoints_saved (trace (world s2)) =
          checkpoints_saved (trace (world s1)) @
            (if epoch mod 5 = 0
             then [(out, ''epoch-'' @ str_int epoch @ ''.pth'',
                    \<lparr> ck_epoch = epoch, ck_model_name = NAME (MODEL c),
                      ck_state_dict = model s2, ck_optimizer = optimizer s2 \<rparr>)]
             else [])"
    by (rule epoch_body_Done(2))
qed

theorem checkpoint_cadence_witness:
  "BEGIN_EPOCH (TRAIN waymo_C) = 0 \<and> END_EPOCH (TRAIN waymo_C) = 200
   \<and> VAL_FREQ (TRAIN waymo_C) \<noteq> 0
   \<and> (\<exists>s'. main_training sample_env waymo_C (- 1) 3 ''out'' (BEGIN_EPOCH (TRAIN waymo_C))
              sample_state = Done s'
         \<and> map ckinfo (checkpoints_saved (trace (world s'))) =
             map (\<lambda>k. (''out'', ''epoch-'' @ str_int (5 * k) @ ''.pth'', 5 * k, [])) [1 .. 40]
         \<and> finals_saved (trace (world s')) = [(path_join ''out'' ''final_state.pth'', model s')])
   \<and> (\<exists>s2. epoch_body sample_env waymo_C (- 1) 3 1000 ''out'' 5 sample_state = Done s2
         \<and> checkpoints_saved (trace (world s2)) =
             [(''out'', ''epoch-'' @ str_int 5 @ ''.pth'',
               \<lparr> ck_epoch = 5, ck_model_name = [], ck_state_dict = model s2,
                 ck_optimizer = optimizer s2 \<rparr>)])"
proof -
  have e: "END_EPOCH (TRAIN waymo_C) \<noteq> 0" and v: "VAL_FREQ (TRAIN waymo_C) \<noteq> 0"
    by (simp_all add: waymo_epochs)
  have nm: "NAME (MODEL waymo_C) = []" by (simp add: waymo_C_def)
  from epoch_body_returns [OF e v] obtain s2 where
    b: "epoch_body sample_env waymo_C (- 1) 3 1000 ''out'' 5 sample_state = Done s2" by blast
  note T = checkpoint_cadence [where c = waymo_C and env = sample_env and rank = "- 1"
      and nb = 3 and nw = 1000 and out = "''out''" and s = sample_state and epoch = 5
      and ?s1.0 = sample_state and ?s2.0 = s2]
  have hyp: "BEGIN_EPOCH (TRAIN waymo_C) = 0 \<and> END_EPOCH (TRAIN waymo_C) = 200
      \<and> VAL_FREQ (TRAIN waymo_C) \<noteq> 0"
    by (simp add: waymo_epochs)
  from T hyp obtain s' where
    m: "main_training sample_env waymo_C (- 1) 3 ''out'' (BEGIN_EPOCH (TRAIN waymo_C))
          sample_state = Done s'"
    and ck: "map ckinfo (checkpoints_saved (trace (world s'))) =
            map ckinfo (checkpoints_saved (trace (world sample_state))) @
            map (\<lambda>k. (''out'', ''epoch-'' @ str_int (5 * k) @ ''.pth'', 5 * k,
                       NAME (MODEL waymo_C))) [1 .. 40]"
    and fs: "finals_saved (trace (world s')) =
            finals_saved (trace (world sample_state)) @
              [(path_join ''out'' ''final_state.pth'', model s')]"
    by blast
  have ck': "map ckinfo (checkpoints_saved (trace (world s'))) =
             map (\<lambda>k. (''out'', ''epoch-'' @ str_int (5 * k) @ ''.pth'', 5 * k, [])) [1 .. 40]"
    using ck by (simp only: sample_state_trace checkpoints_saved_simps list.map append_Nil nm)
  have fs': "finals_saved (trace (world s')) = [(path_join ''out'' ''final_state.pth'', model s')]"
    using fs by (simp only: sample_state_trace finals_saved_simps append_Nil)
  have one: "checkpoints_saved (trace (world s2)) =
             [(''out'', ''epoch-'' @ str_int 5 @ ''.pth'',
               \<lparr> ck_epoch = 5, ck_model_name = [], ck_state_dict = model s2,
                 ck_optimizer = optimizer s2 \<rparr>)]"
    using T b by (simp add: sample_state_trace checkpoints_saved_simps nm)
  from hyp m ck' fs' b one show ?thesis by blast
qed

section \<open>Properties of the rounding to a double\<close>

lemma py_round_int: "py_round (real_of_int k) = k"
  by (simp add: py_round_def)

lemma py_round_near: "\<bar>real_of_int (py_round x) - x\<bar> \<le> 1 / 2"
  unfolding py_round_def Let_def by (auto simp: abs_if) linarith+

lemma py_round_ge: "real_of_int k \<le> x \<Longrightarrow> k \<le> py_round x"
proof -
  assume "real_of_int k \<le> x"
  then have "k \<le> \<lfloor>x\<rfloor>" by (simp add: le_floor_iff)
  moreover have "\<lfloor>x\<rfloor> \<le> py_round x" by (simp add: py_round_def Let_def)
  ultimately show ?thesis by simp
qed

lemma py_round_le: "x \<le> real_of_int k \<Longrightarrow> py_round x \<le> k"
proof -
  assume a: "x \<le> real_of_int k"
  show ?thesis
  proof (cases "x = real_of_int k")
    case True
    then show ?thesis by (simp add: py_round_int)
  next
    case False
    with a have "x < real_of_int k" by simp
    then have "\<lfloor>x\<rfloor> < k" by (simp add: floor_less_iff)
    moreover have "py_round x \<le> \<lfloor>x\<rfloor> + 1" by (simp add: py_round_def Let_def)
    ultimately show ?thesis by simp
  qed
qed

lemma log2_bounds:
  assumes "0 < x"
  shows "2 powr real_of_int \<lfloor>log 2 x\<rfloor> \<le> x" and "x < 2 powr real_of_int (\<lfloor>log 2 x\<rfloor> + 1)"
proof -
  have a: "real_of_int \<lfloor>log 2 x\<rfloor> \<le> log 2 x" by simp
  show "2 powr real_of_int \<lfloor>log 2 x\<rfloor> \<le> x"
    using le_log_iff [of 2 x "real_of_int \<lfloor>log 2 x\<rfloor>"] assms a by (simp del: of_int_floor_le)
  have b: "log 2 x < real_of_int (\<lfloor>log 2 x\<rfloor> + 1)" by linarith
  show "x < 2 powr real_of_int (\<lfloor>log 2 x\<rfloor> + 1)"
    using log_less_iff [of 2 x "real_of_int (\<lfloor>log 2 x\<rfloor> + 1)", OF one_less_numeral_iff [THEN iffD2] assms] b
    by (simp only: Num.num.distinct semiring_norm)
qed

lemma powr_int_add: "2 powr real_of_int (a + b) = 2 powr real_of_int a * 2 powr real_of_int b"
  by (simp add: powr_add)

lemma powr_int_mono: "a \<le> b \<Longrightarrow> 2 powr real_of_int a \<le> 2 powr real_of_int b"
  by simp

lemma powr_53: "2 powr real_of_int 53 = real_of_int (2 ^ 53)"
  by (simp add: powr_real_of_int)

lemma powr_52: "2 powr real_of_int 52 = real_of_int (2 ^ 52)"
  by (simp add: powr_real_of_int)

text \<open>The mantissa of a positive number and the value it is rounded to.\<close>

lemma double_round_pos:
  assumes x: "0 < x"
  defines "e \<equiv> max \<lfloor>log 2 x\<rfloor> (- 1022)"
  defines "q \<equiv> 2 powr real_of_int (e - 52)"
  defines "k \<equiv> py_round (x / q)"
  shows "double_round x =
           (if overflow_threshold \<le> real_of_int k * q then PosInf
            else Finite (real_of_int k * q))"
    and "0 \<le> k" and "k \<le> 2 ^ 53" and "0 < q"
    and "real_of_int k * q \<le> 2 powr real_of_int (e + 1)"
    and "- 1022 \<le> \<lfloor>log 2 x\<rfloor> \<Longrightarrow> 2 ^ 52 \<le> k"
    and "\<bar>real_of_int k * q - x\<bar> \<le> q / 2"
proof -
  show q: "0 < q" by (simp add: q_def)
  have xq: "0 < x / q" using x q by simp
  from py_round_ge [of 0 "x / q"] xq show k0: "0 \<le> k" by (simp add: k_def)
  have "x < 2 powr real_of_int (\<lfloor>log 2 x\<rfloor> + 1)" by (rule log2_bounds(2) [OF x])
  also have "\<dots> \<le> 2 powr real_of_int (e + 1)" by (rule powr_int_mono) (simp add: e_def)
  finally have xe: "x < 2 powr real_of_int (e + 1)" .
  have "e + 1 = 53 + (e - 52)" by simp
  then have split: "2 powr real_of_int (e + 1) = 2 powr real_of_int 53 * q"
    unfolding q_def by (simp only: powr_int_add)
  from xe split q have "x / q < 2 powr real_of_int 53"
    by (simp add: pos_divide_less_eq)
  then have "x / q \<le> real_of_int (2 ^ 53)" by (simp only: powr_53)
  from py_round_le [OF this] show k53: "k \<le> 2 ^ 53" by (simp add: k_def)
  have "real_of_int k * q \<le> real_of_int (2 ^ 53) * q"
    using k53 q by (intro mult_right_mono) (simp_all only: of_int_le_iff less_imp_le)
  then show "real_of_int k * q \<le> 2 powr real_of_int (e + 1)"
    by (simp only: split powr_53)
  have ab: "\<bar>real_of_int k * q\<bar> = real_of_int k * q" using k0 q by simp
  show "double_round x =
           (if overflow_threshold \<le> real_of_int k * q then PosInf
            else Finite (real_of_int k * q))"
    using x ab by (simp add: double_round_def Let_def e_def q_def k_def)
  show "\<bar>real_of_int k * q - x\<bar> \<le> q / 2"
  proof -
    have "real_of_int k * q - x = (real_of_int k - x / q) * q"
      using q by (simp add: field_simps)
    then have "\<bar>real_of_int k * q - x\<bar> = \<bar>real_of_int k - x / q\<bar> * q"
      using q by (simp add: abs_mult)
    also have "\<dots> \<le> (1 / 2) * q"
      using py_round_near [of "x / q"] q by (intro mult_right_mono) (simp_all add: k_def)
    finally show ?thesis by simp
  qed
  show "2 ^ 52 \<le> k" if n: "- 1022 \<le> \<lfloor>log 2 x\<rfloor>"
  proof -
    from n have e: "e = \<lfloor>log 2 x\<rfloor>" by (simp add: e_def)
    have "2 powr real_of_int e \<le> x" unfolding e by (rule log2_bounds(1) [OF x])
    moreover have "e = 52 + (e - 52)" by simp
    then have "2 powr real_of_int e = 2 powr real_of_int 52 * q"
      unfolding q_def by (simp only: powr_int_add [symmetric])
    ultimately have "2 powr real_of_int 52 \<le> x / q" using q by (simp add: pos_le_divide_eq)
    then have "real_of_int (2 ^ 52) \<le> x / q" by (simp only: powr_52)
    from py_round_ge [OF this] show ?thesis by (simp add: k_def)
  qed
qed

lemma double_round_0: "double_round 0 = Finite 0"
  by (simp add: double_round_def)

lemma powr_lt_1024: "j \<le> 1023 \<Longrightarrow> 2 powr real_of_int j < overflow_threshold"
  unfolding overflow_threshold_def by (rule powr_less_mono) simp_all

text \<open>Rounding keeps a positive number under a power of two that bounds it.\<close>

lemma double_round_upper:
  assumes x: "0 < x" and le: "x \<le> 2 powr real_of_int j" and j: "- 1021 \<le> j" "j \<le> 1023"
  shows "\<exists>y. double_round x = Finite y \<and> 0 \<le> y \<and> y \<le> 2 powr real_of_int j"
proof -
  define e where "e = max \<lfloor>log 2 x\<rfloor> (- 1022)"
  define q where "q = 2 powr real_of_int (e - 52)"
  define k where "k = py_round (x / q)"
  note dr = double_round_pos [OF x, folded e_def q_def k_def]
  have fl: "\<lfloor>log 2 x\<rfloor> \<le> j"
  proof -
    have "log 2 x \<le> real_of_int j"
      using log_le_iff [of 2 x "real_of_int j"] x le by simp
    then show ?thesis by (simp add: floor_le_iff)
  qed
  have y: "real_of_int k * q \<le> 2 powr real_of_int j"
  proof (cases "\<lfloor>log 2 x\<rfloor> = j")
    case True
    have "2 powr real_of_int j \<le> x" using log2_bounds(1) [OF x] by (simp only: True)
    with le have xj: "x = 2 powr real_of_int j" by simp
    from True j have e: "e = j" by (simp add: e_def)
    have "j = 52 + (j - 52)" by simp
    then have "2 powr real_of_int j = 2 powr real_of_int 52 * q"
      unfolding q_def e by (simp only: powr_int_add [symmetric])
    then have "x / q = real_of_int (2 ^ 52)"
      using dr(4) by (simp only: xj powr_52) (simp add: field_simps)
    then have "k = 2 ^ 52" by (simp only: k_def py_round_int)
    then have "real_of_int k * q = 2 powr real_of_int 52 * q" by (simp only: powr_52)
    also have "\<dots> = 2 powr real_of_int j"
      using \<open>2 powr real_of_int j = 2 powr real_of_int 52 * q\<close> by simp
    finally show ?thesis by simp
  next
    case False
    with fl have "\<lfloor>log 2 x\<rfloor> + 1 \<le> j" by simp
    with j have "e + 1 \<le> j" by (simp add: e_def)
    from dr(5) powr_int_mono [OF this] show ?thesis by linarith
  qed
  from y powr_lt_1024 [OF j(2)] have "\<not> overflow_threshold \<le> real_of_int k * q" by linarith
  with dr(1) have "double_round x = Finite (real_of_int k * q)" by simp
  moreover have "0 \<le> real_of_int k * q" using dr(2) dr(4) by simp
  ultimately show ?thesis using y by blast
qed

text \<open>Rounding keeps a number over a power of two that it reaches.\<close>

lemma double_round_lower:
  assumes ge: "2 powr real_of_int i \<le> x" and i: "- 1022 \<le> i"
    and fin: "double_round x = Finite y"
  shows "2 powr real_of_int i \<le> y"
proof -
  have x: "0 < x" using ge by (rule less_le_trans [rotated]) simp
  define e where "e = max \<lfloor>log 2 x\<rfloor> (- 1022)"
  define q where "q = 2 powr real_of_int (e - 52)"
  define k where "k = py_round (x / q)"
  note dr = double_round_pos [OF x, folded e_def q_def k_def]
  have "real_of_int i \<le> log 2 x"
    using le_log_iff [of 2 x "real_of_int i"] x ge by simp
  then have fl: "i \<le> \<lfloor>log 2 x\<rfloor>" by (simp add: le_floor_iff)
  with i have n: "- 1022 \<le> \<lfloor>log 2 x\<rfloor>" by linarith
  then have e: "e = \<lfloor>log 2 x\<rfloor>" unfolding e_def by (rule max.absorb1)
  from dr(6) [OF n] have "real_of_int (2 ^ 52) * q \<le> real_of_int k * q"
    using dr(4) by (intro mult_right_mono) (simp_all only: of_int_le_iff less_imp_le)
  moreover have "e = 52 + (e - 52)" by simp
  then have "2 powr real_of_int e = 2 powr real_of_int 52 * q"
    unfolding q_def by (simp only: powr_int_add [symmetric])
  ultimately have A: "2 powr real_of_int e \<le> real_of_int k * q" by (simp only: powr_52)
  have B: "2 powr real_of_int i \<le> 2 powr real_of_int e"
    using fl by (simp only: e powr_int_mono)
  from fin dr(1) have C: "y = real_of_int k * q" by (simp split: if_splits)
  from order_trans [OF B A] show ?thesis by (simp only: C)
qed


text \<open>A positive number whose mantissa is an integer is a double.\<close>

lemma double_round_exact:
  assumes x: "0 < x" and n: "- 1022 \<le> \<lfloor>log 2 x\<rfloor>" and j: "\<lfloor>log 2 x\<rfloor> \<le> 1023"
    and int: "x / 2 powr real_of_int (\<lfloor>log 2 x\<rfloor> - 52) = real_of_int m"
  shows "double_round x = Finite x"
proof -
  define e where "e = max \<lfloor>log 2 x\<rfloor> (- 1022)"
  define q where "q = 2 powr real_of_int (e - 52)"
  define k where "k = py_round (x / q)"
  note dr = double_round_pos [OF x, folded e_def q_def k_def]
  from n have e: "e = \<lfloor>log 2 x\<rfloor>" unfolding e_def by (rule max.absorb1)
  from int have "x / q = real_of_int m" by (simp only: q_def e)
  then have k: "real_of_int k = x / q" by (simp only: k_def py_round_int)
  then have y: "real_of_int k * q = x" using dr(4) by simp
  have "x < 2 powr real_of_int (\<lfloor>log 2 x\<rfloor> + 1)" by (rule log2_bounds(2) [OF x])
  also have "\<dots> \<le> overflow_threshold"
  proof -
    from j have "\<lfloor>log 2 x\<rfloor> + 1 \<le> 1024" by linarith
    then have "real_of_int (\<lfloor>log 2 x\<rfloor> + 1) \<le> real_of_int 1024" by (simp only: of_int_le_iff)
    then have "real_of_int (\<lfloor>log 2 x\<rfloor> + 1) \<le> 1024" by (simp only: of_int_numeral)
    then show ?thesis unfolding overflow_threshold_def by (rule powr_mono) simp
  qed
  finally have "\<not> overflow_threshold \<le> x" by simp
  with dr(1) y show ?thesis by simp
qed

lemma double_round_nat:
  assumes "0 < n" and "n < 2 ^ 53"
  shows "double_round (real n) = Finite (real n)"
proof -
  have x: "0 < real n" using assms by simp
  have one: "2 powr real_of_int 0 \<le> real n" using assms by simp
  have "real_of_int 0 \<le> log 2 (real n)"
    using le_log_iff [of 2 "real n" "real_of_int 0"] x one by simp
  then have lo: "0 \<le> \<lfloor>log 2 (real n)\<rfloor>" by (simp add: le_floor_iff)
  have "real n < 2 powr real_of_int 53" using assms by (simp only: powr_53) simp
  then have "log 2 (real n) < real_of_int 53"
    using log_less_iff [of 2 "real n" "real_of_int 53"] x by simp
  then have hi: "\<lfloor>log 2 (real n)\<rfloor> \<le> 52" by (simp add: floor_le_iff)
  define d where "d = nat (52 - \<lfloor>log 2 (real n)\<rfloor>)"
  have d: "real_of_int (\<lfloor>log 2 (real n)\<rfloor> - 52) = - real d" using hi by (simp add: d_def)
  have "real n / 2 powr real_of_int (\<lfloor>log 2 (real n)\<rfloor> - 52) = real n * 2 powr real d"
    by (simp only: d powr_minus) (simp add: field_simps)
  also have "\<dots> = real_of_int (int n * 2 ^ d)" by (simp add: powr_realpow)
  finally have eq: "real n / 2 powr real_of_int (\<lfloor>log 2 (real n)\<rfloor> - 52)
      = real_of_int (int n * 2 ^ d)" .
  from lo have lo': "- 1022 \<le> \<lfloor>log 2 (real n)\<rfloor>" by linarith
  from hi have hi': "\<lfloor>log 2 (real n)\<rfloor> \<le> 1023" by linarith
  show ?thesis by (rule double_round_exact [OF x lo' hi' eq])
qed

lemma py_round_neg: "py_round (- x) = - py_round x"
proof (cases "x \<in> \<int>")
  case True
  then obtain k where "x = real_of_int k" by (auto elim: Ints_cases)
  then show ?thesis using py_round_int [of "- k"] by (simp add: py_round_int)
next
  case False
  have ne: "x \<noteq> real_of_int \<lfloor>x\<rfloor>"
  proof
    assume "x = real_of_int \<lfloor>x\<rfloor>"
    then have "x \<in> \<int>" by (metis Ints_of_int)
    with False show False by simp
  qed
  then have fl: "\<lfloor>- x\<rfloor> = - \<lfloor>x\<rfloor> - 1"
    by (simp add: floor_minus ceiling_altdef)
  have d: "- x - real_of_int \<lfloor>- x\<rfloor> = 1 - (x - real_of_int \<lfloor>x\<rfloor>)"
    by (simp add: fl)
  have ev: "even \<lfloor>- x\<rfloor> = odd \<lfloor>x\<rfloor>" by (simp add: fl)
  show ?thesis
    unfolding py_round_def Let_def d ev
    by (auto simp: fl)
qed

lemma double_round_neg:
  "double_round (- x) =
     (case double_round x of Finite y \<Rightarrow> Finite (- y) | NaN \<Rightarrow> NaN | PosInf \<Rightarrow> NegInf
      | NegInf \<Rightarrow> PosInf)"
  by (simp add: double_round_def Let_def py_round_neg)

lemma double_round_1: "double_round 1 = Finite 1"
  using double_round_nat [of 1] by simp

lemma powr_63: "2 powr real_of_int 63 = 2 ^ 63"
  by (simp add: powr_real_of_int)

text \<open>A non-negative number under \<open>2\<^sup>6\<^sup>3\<close> rounds to such a number.\<close>

lemma double_round_63:
  assumes "0 \<le> x" and "x \<le> 2 ^ 63"
  shows "\<exists>y. double_round x = Finite y \<and> 0 \<le> y \<and> y \<le> 2 ^ 63"
proof (cases "x = 0")
  case True
  then show ?thesis by (simp add: double_round_0)
next
  case False
  with assms have x: "0 < x" by simp
  from assms(2) have "x \<le> 2 powr real_of_int 63" by (simp only: powr_63)
  from double_round_upper [OF x this] show ?thesis by (simp only: powr_63)
qed

lemma double_round_ge_1:
  assumes "1 \<le> x" and "double_round x = Finite y"
  shows "1 \<le> y"
proof -
  from assms(1) have "2 powr real_of_int 0 \<le> x" by simp
  from double_round_lower [OF this _ assms(2)] show ?thesis by simp
qed

lemma float_of_len_value:
  "\<exists>y. float_of_len n = Finite y \<and> 0 \<le> y \<and> y \<le> 2 ^ 63
       \<and> (n = 0 \<longrightarrow> y = 0) \<and> (n \<noteq> 0 \<longrightarrow> 1 \<le> y)
       \<and> (unat n < 2 ^ 53 \<longrightarrow> y = real (unat n))"
proof -
  have u: "unat n < 2 ^ 63" using unsigned_less [of n, where ?'a = nat] by simp
  then have le: "real (unat n) \<le> 2 ^ 63"
    by (metis less_imp_le of_nat_le_iff of_nat_numeral of_nat_power)
  have nn: "0 \<le> real (unat n)" by (rule of_nat_0_le_iff)
  from double_round_63 [OF nn le] obtain y where
    y: "double_round (real (unat n)) = Finite y" "0 \<le> y" "y \<le> 2 ^ 63" by blast
  have z: "n = 0 \<longrightarrow> y = 0" using y(1) by (auto simp: double_round_0)
  have p: "n \<noteq> 0 \<longrightarrow> 1 \<le> y"
  proof
    assume "n \<noteq> 0"
    then have "unat n \<noteq> 0" by (simp add: unat_eq_zero)
    then have "1 \<le> unat n" by simp
    then have "real 1 \<le> real (unat n)" by (rule of_nat_mono)
    then have "1 \<le> real (unat n)" by (simp only: of_nat_1)
    from double_round_ge_1 [OF this y(1)] show "1 \<le> y" .
  qed
  have s: "unat n < 2 ^ 53 \<longrightarrow> y = real (unat n)"
  proof
    assume b: "unat n < 2 ^ 53"
    show "y = real (unat n)"
    proof (cases "unat n = 0")
      case True
      with y(1) show ?thesis by (simp add: double_round_0)
    next
      case False
      then have "0 < unat n" by simp
      from double_round_nat [OF this b] y(1) show ?thesis by simp
    qed
  qed
  from y z p s show ?thesis unfolding float_of_len_def by blast
qed


text \<open>Dividing by zero, and dividing a positive budget by itself.\<close>

lemma double_round_ge_1_result:
  assumes "1 \<le> x"
  shows "(\<exists>y. double_round x = Finite y \<and> 1 \<le> y) \<or> double_round x = PosInf"
proof -
  from assms have x: "0 < x" by simp
  show ?thesis
  proof (cases "double_round x")
    case (Finite y)
    with double_round_ge_1 [OF assms] show ?thesis by simp
  next
    case NaN
    with double_round_pos(1) [OF x] show ?thesis by (simp split: if_splits)
  next
    case PosInf
    then show ?thesis by simp
  next
    case NegInf
    with double_round_pos(1) [OF x] show ?thesis by (simp split: if_splits)
  qed
qed

lemma float_div_zero_pos:
  assumes "1 \<le> x"
  shows "float_div (double_round x) (Finite 0) = PosInf"
  using double_round_ge_1_result [OF assms]
  by (auto simp: float_div_def float_sign_def signed_inf_def)

lemma float_div_zero_neg:
  assumes "1 \<le> x"
  shows "float_div (double_round (- x)) (Finite 0) = NegInf"
  using double_round_ge_1_result [OF assms]
  by (auto simp: double_round_neg float_div_def float_sign_def signed_inf_def)

lemma np_div_zero:
  "np_div n 0 = (if n = 0 then NaN else if 0 < n then PosInf else NegInf)"
proof -
  consider "n = 0" | "0 < n" | "n < 0" by linarith
  then show ?thesis
  proof cases
    case 1
    then show ?thesis
      by (simp add: np_div_def double_round_0 float_div_def float_sign_def signed_inf_def)
  next
    case 2
    then have "1 \<le> real_of_int n" by simp
    from float_div_zero_pos [OF this] 2 show ?thesis by (simp add: np_div_def double_round_0)
  next
    case 3
    then have "1 \<le> - real_of_int n" by simp
    from float_div_zero_neg [OF this] 3 show ?thesis by (simp add: np_div_def double_round_0)
  qed
qed

lemma np_div_same:
  assumes "1 \<le> n" and "n \<le> 2 ^ 63"
  shows "np_div n n = Finite 1"
proof -
  from assms have "0 \<le> real_of_int n" "real_of_int n \<le> 2 ^ 63"
    by (simp_all add: of_int_le_numeral_power_cancel_iff)
  from double_round_63 [OF this] obtain y where y: "double_round (real_of_int n) = Finite y"
    by blast
  from assms(1) have "1 \<le> real_of_int n" by simp
  from double_round_ge_1 [OF this y] have "1 \<le> y" .
  then have "y \<noteq> 0" and "y / y = 1" by simp_all
  then show ?thesis by (simp add: np_div_def y float_div_def double_round_1)
qed












section \<open>Properties of the fractional mixer\<close>

lemma mixer_loop_ok:
  assumes "i + length ds \<le> length fs"
    and "\<forall>(f, d) \<in> set (zip (drop i fs) ds). \<exists>b. budget f d = Inr b"
  shows "mixer_loop ds fs i acc n =
     Inr (acc @ budgets ds (drop i fs), n + sum_list (budgets ds (drop i fs)))"
  using assms
proof (induction ds arbitrary: i acc n)
  case Nil
  then show ?case by (simp add: budgets_def)
next
  case (Cons d ds)
  from Cons.prems have lt: "i < length fs" and le: "Suc i + length ds \<le> length fs" by simp_all
  from lt have dr: "drop i fs = fs ! i # drop (Suc i) fs"
    by (simp add: Cons_nth_drop_Suc)
  from Cons.prems(2) obtain b where b: "budget (fs ! i) d = Inr b"
    and rest: "\<forall>(f, d) \<in> set (zip (drop (Suc i) fs) ds). \<exists>b. budget f d = Inr b"
    by (auto simp: dr)
  from b have b': "py_int (fraction_times_len (fs ! i) (ds_len d)) = Inr b"
    by (simp add: budget_def)
  show ?case
    using lt by (simp add: Cons.IH [OF le rest] dr b b' budgets_def Let_def)
qed






lemma mixer_value:
  assumes "length ds \<le> length fs"
    and "\<forall>(f, d) \<in> set (zip fs ds). \<exists>b. budget f d = Inr b"
  shows "mixer ds fs =
    Inr \<lparr> dataset_samples_list = budgets ds fs, num_samples = sum_list (budgets ds fs),
          weights = map (\<lambda>s. np_div s (sum_list (budgets ds fs))) (budgets ds fs) \<rparr>"
  using assms mixer_loop_ok [of 0 ds fs "[]" 0] by (simp add: mixer_def)





text \<open>The budget of a fraction between 0 and 1.\<close>

lemma budget_unit_fraction:
  assumes "0 \<le> x" and "x \<le> 1"
  shows "\<exists>y. fraction_times_len (Finite x) (ds_len d) = Finite y \<and> 0 \<le> y \<and> y \<le> 2 ^ 63
           \<and> budget (Finite x) d = Inr \<lfloor>y\<rfloor> \<and> 0 \<le> \<lfloor>y\<rfloor> \<and> \<lfloor>y\<rfloor> \<le> 2 ^ 63"
proof -
  from float_of_len_value [of "ds_len d"] obtain l where
    l: "float_of_len (ds_len d) = Finite l" "0 \<le> l" "l \<le> 2 ^ 63" by blast
  have "0 \<le> x * l" using assms(1) l(2) by simp
  moreover have "x * l \<le> 1 * 2 ^ 63" using assms l by (intro mult_mono) simp_all
  ultimately obtain y where y: "double_round (x * l) = Finite y" "0 \<le> y" "y \<le> 2 ^ 63"
    using double_round_63 [of "x * l"] by auto
  have p: "fraction_times_len (Finite x) (ds_len d) = Finite y"
    by (simp add: fraction_times_len_def l(1) float_mul_def y(1))
  have b: "budget (Finite x) d = Inr \<lfloor>y\<rfloor>"
    using y(2) by (simp add: budget_def p py_int_def)
  have "\<lfloor>y\<rfloor> \<le> 2 ^ 63" using y(3) by (simp add: floor_le_iff)
  moreover have "0 \<le> \<lfloor>y\<rfloor>" using y(2) by simp
  ultimately show ?thesis using p y b by blast
qed

lemma budget_one:
  "\<exists>b. budget (Finite 1) d = Inr b \<and> 0 \<le> b \<and> b \<le> 2 ^ 63
      \<and> (ds_len d = 0 \<longrightarrow> b = 0) \<and> (ds_len d \<noteq> 0 \<longrightarrow> 1 \<le> b)
      \<and> (unat (ds_len d) < 2 ^ 53 \<longrightarrow> b = int (unat (ds_len d)))"
proof -
  from float_of_len_value [of "ds_len d"] obtain l where
    l: "float_of_len (ds_len d) = Finite l" "0 \<le> l" "l \<le> 2 ^ 63"
      "ds_len d = 0 \<longrightarrow> l = 0" "ds_len d \<noteq> 0 \<longrightarrow> 1 \<le> l"
      "unat (ds_len d) < 2 ^ 53 \<longrightarrow> l = real (unat (ds_len d))" by blast
  from double_round_63 [OF l(2) l(3)] obtain y where
    y: "double_round l = Finite y" "0 \<le> y" "y \<le> 2 ^ 63" by blast
  have p: "fraction_times_len (Finite 1) (ds_len d) = Finite y"
    by (simp add: fraction_times_len_def l(1) float_mul_def y(1))
  have b: "budget (Finite 1) d = Inr \<lfloor>y\<rfloor>"
    using y(2) by (simp add: budget_def p py_int_def)
  have hi: "\<lfloor>y\<rfloor> \<le> 2 ^ 63" using y(3) by (simp add: floor_le_iff)
  have lo: "0 \<le> \<lfloor>y\<rfloor>" using y(2) by simp
  have z: "ds_len d = 0 \<longrightarrow> \<lfloor>y\<rfloor> = 0" using l(4) y(1) by (auto simp: double_round_0)
  have nz: "ds_len d \<noteq> 0 \<longrightarrow> 1 \<le> \<lfloor>y\<rfloor>"
  proof
    assume "ds_len d \<noteq> 0"
    with l(5) have "1 \<le> l" by simp
    from double_round_ge_1 [OF this y(1)] show "1 \<le> \<lfloor>y\<rfloor>" by (simp add: le_floor_iff)
  qed
  have sm: "unat (ds_len d) < 2 ^ 53 \<longrightarrow> \<lfloor>y\<rfloor> = int (unat (ds_len d))"
  proof
    assume s: "unat (ds_len d) < 2 ^ 53"
    with l(6) have ll: "l = real (unat (ds_len d))" by simp
    have "y = real (unat (ds_len d))"
    proof (cases "unat (ds_len d) = 0")
      case True
      with y(1) ll show ?thesis by (simp add: double_round_0)
    next
      case False
      then have "0 < unat (ds_len d)" by simp
      from double_round_nat [OF this s] y(1) show ?thesis by (simp only: ll) simp
    qed
    then show "\<lfloor>y\<rfloor> = int (unat (ds_len d))" by (simp only: floor_of_nat)
  qed
  from b lo hi z nz sm show ?thesis by blast
qed











lemma sample_budget:
  assumes "n < 2 ^ 53" and "unat w = n"
  shows "float_of_len (ds_len (sample_dataset w)) = Finite (real n)"
proof (cases "n = 0")
  case True
  with assms show ?thesis by (simp add: float_of_len_def sample_dataset_def double_round_0)
next
  case False
  then have "0 < n" by simp
  from double_round_nat [OF this assms(1)] assms(2) show ?thesis
    by (simp only: float_of_len_def sample_dataset_def dataset.simps)
qed






lemma len_0: "float_of_len (ds_len (sample_dataset 0)) = Finite 0"
  using sample_budget [of 0 0] by simp
















lemma fold_emit_trace:
  "trace (world (fold (\<lambda>d. emit (CreateDataset d)) ds s)) = trace (world s) @ map CreateDataset ds
   \<and> files (world (fold (\<lambda>d. emit (CreateDataset d)) ds s)) = files (world s)"
  by (induction ds arbitrary: s) (simp_all add: emit_def log_event_def)


lemma main_data_mixer_ok:
  assumes "select_datasets (dataset_len env) c = (ds, fs)" and "mixer ds fs = Inr mx"
  shows "\<exists>s3. main_data env c rank out s =
        map_outcome world
          (main_training env c rank
             (loader_len env (weights mx) (num_samples mx) (BATCH_SIZE (TRAIN c))) out
             (BEGIN_EPOCH (TRAIN c)) s3)
     \<and> files (world s3) = files (world s)
     \<and> trace (world s3) = trace (world s) @ map CreateDataset ds
         @ [CreateTrainLoader (weights mx) (num_samples mx) (BATCH_SIZE (TRAIN c)),
            CreateDataset (new_dataset (dataset_len env) SegmDataset2D c False
                             (VAL_PATH (DATASET c)) ''val'' None None []),
            CreateValLoader (TEST_BATCH_SIZE (TEST c))]"
  using assms fold_emit_trace [of ds s]
  apply (simp add: main_data_def Let_def emit_def log_event_def)
  apply (rule exI)
  apply (intro conjI)
    apply (rule refl)
   apply simp_all
  done

lemma mixer_single:
  "\<exists>b. mixer [d] [Finite 1] =
          Inr \<lparr> dataset_samples_list = [b], num_samples = b,
                weights = [if ds_len d = 0 then NaN else Finite 1] \<rparr>
      \<and> (ds_len d = 0 \<longrightarrow> b = 0) \<and> (ds_len d \<noteq> 0 \<longrightarrow> 1 \<le> b)
      \<and> (unat (ds_len d) < 2 ^ 53 \<longrightarrow> b = int (unat (ds_len d)))"
proof -
  from budget_one [of d] obtain b where
    b: "budget (Finite 1) d = Inr b" "0 \<le> b" "b \<le> 2 ^ 63" "ds_len d = 0 \<longrightarrow> b = 0"
       "ds_len d \<noteq> 0 \<longrightarrow> 1 \<le> b" "unat (ds_len d) < 2 ^ 53 \<longrightarrow> b = int (unat (ds_len d))"
    by blast
  have ok: "\<forall>(f, d') \<in> set (zip [Finite 1] [d]). \<exists>b. budget f d' = Inr b" using b(1) by simp
  have bs: "budgets [d] [Finite 1] = [b]" by (simp add: budgets_def b(1))
  have w: "np_div b b = (if ds_len d = 0 then NaN else Finite 1)"
  proof (cases "ds_len d = 0")
    case True
    with b(4) show ?thesis by (simp add: np_div_zero)
  next
    case False
    with b(5) have "1 \<le> b" by simp
    from np_div_same [OF this b(3)] False show ?thesis by simp
  qed
  have "mixer [d] [Finite 1] =
          Inr \<lparr> dataset_samples_list = [b], num_samples = b,
                weights = [if ds_len d = 0 then NaN else Finite 1] \<rparr>"
    using mixer_value [of "[d]" "[Finite 1]", OF _ ok] by (simp add: bs w)
  with b(4,5,6) show ?thesis by blast
qed









section \<open>Properties of the choice of datasets\<close>

text \<open>
  Claim C9, as the code has it. When \<^verbatim>\<open>MASKS_ONLY\<close> is set, whatever
  \<^verbatim>\<open>LIDAR_DATA_ONLY\<close> is, training uses the one dataset of 2D masks with the fraction
  list \<^verbatim>\<open>[1.0]\<close>; \<^verbatim>\<open>LIDAR_DATA_ONLY\<close> decides only when \<^verbatim>\<open>MASKS_ONLY\<close> is off, and
  gives the one dataset of projected lidar points with the fraction list \<^verbatim>\<open>[1.0]\<close>;
  with both flags off there are two datasets and the configured fractions. In a
  single-source mode the budget is the dataset's length (as a double; the length itself
  below \<open>2\<^sup>5\<^sup>3\<close>) and the weight is 1.0 when the dataset is not empty, and \<^verbatim>\<open>nan\<close>, with
  the budget 0, when it is empty.
\<close>

theorem single_source_modes:
  "(MASKS_ONLY (DATASET c) \<longrightarrow>
      select_datasets dlen c =
        ([new_dataset dlen SegmDataset2D c True (PATH (DATASET c)) ''train'' None None
            ''Segmentation 2D''], [Finite 1]))
   \<and> (\<not> MASKS_ONLY (DATASET c) \<and> LIDAR_DATA_ONLY (DATASET c) \<longrightarrow>
      select_datasets dlen c =
        ([new_dataset dlen SegmDataset3D c True (PATH (DATASET c)) ''train'' None None
            ''Segmentation repojected 3D''], [Finite 1]))
   \<and> (\<not> MASKS_ONLY (DATASET c) \<and> \<not> LIDAR_DATA_ONLY (DATASET c) \<longrightarrow>
      length (fst (select_datasets dlen c)) = 2
      \<and> snd (select_datasets dlen c) = DATASETS_FRACTIONS (DATASET c))
   \<and> (MASKS_ONLY (DATASET c) \<or> LIDAR_DATA_ONLY (DATASET c) \<longrightarrow>
      (\<exists>d b. select_datasets dlen c = ([d], [Finite 1])
         \<and> mixer [d] [Finite 1] =
              Inr \<lparr> dataset_samples_list = [b], num_samples = b,
                    weights = [if ds_len d = 0 then NaN else Finite 1] \<rparr>
         \<and> (ds_len d = 0 \<longrightarrow> b = 0) \<and> (ds_len d \<noteq> 0 \<longrightarrow> 1 \<le> b)
         \<and> (unat (ds_len d) < 2 ^ 53 \<longrightarrow> b = int (unat (ds_len d)))))"
proof (intro conjI impI)
  assume "MASKS_ONLY (DATASET c) \<or> LIDAR_DATA_ONLY (DATASET c)"
  then have "\<exists>d. select_datasets dlen c = ([d], [Finite 1])"
    by (cases "MASKS_ONLY (DATASET c)") (simp_all add: select_datasets_def Let_def)
  then obtain d where d: "select_datasets dlen c = ([d], [Finite 1])" ..
  from mixer_single [of d] d
  show "\<exists>d b. select_datasets dlen c = ([d], [Finite 1])
         \<and> mixer [d] [Finite 1] =
              Inr \<lparr> dataset_samples_list = [b], num_samples = b,
                    weights = [if ds_len d = 0 then NaN else Finite 1] \<rparr>
         \<and> (ds_len d = 0 \<longrightarrow> b = 0) \<and> (ds_len d \<noteq> 0 \<longrightarrow> 1 \<le> b)
         \<and> (unat (ds_len d) < 2 ^ 53 \<longrightarrow> b = int (unat (ds_len d)))"
    by blast
qed (simp_all add: select_datasets_def Let_def)

theorem single_source_modes_witness:
  "MASKS_ONLY (DATASET masks_and_lidar_cfg) \<and> LIDAR_DATA_ONLY (DATASET masks_and_lidar_cfg)
   \<and> select_datasets (dataset_len sample_env) masks_and_lidar_cfg =
        ([new_dataset (dataset_len sample_env) SegmDataset2D masks_and_lidar_cfg True
            (PATH (DATASET masks_and_lidar_cfg)) ''train'' None None ''Segmentation 2D''],
         [Finite 1])
   \<and> \<not> MASKS_ONLY (DATASET lidar_only_cfg) \<and> LIDAR_DATA_ONLY (DATASET lidar_only_cfg)
   \<and> select_datasets (dataset_len sample_env) lidar_only_cfg =
        ([new_dataset (dataset_len sample_env) SegmDataset3D lidar_only_cfg True
            (PATH (DATASET lidar_only_cfg)) ''train'' None None ''Segmentation repojected 3D''],
         [Finite 1])
   \<and> \<not> MASKS_ONLY (DATASET waymo_C) \<and> \<not> LIDAR_DATA_ONLY (DATASET waymo_C)
   \<and> snd (select_datasets (dataset_len sample_env) waymo_C) = [Finite 1, Finite 1]
   \<and> (\<exists>d. select_datasets (dataset_len sample_env) masks_and_lidar_cfg = ([d], [Finite 1])
         \<and> ds_len d = 10
         \<and> mixer [d] [Finite 1] =
              Inr \<lparr> dataset_samples_list = [10], num_samples = 10, weights = [Finite 1] \<rparr>)
   \<and> (\<exists>d. select_datasets no_items lidar_only_cfg = ([d], [Finite 1])
         \<and> ds_len d = 0
         \<and> mixer [d] [Finite 1] =
              Inr \<lparr> dataset_samples_list = [0], num_samples = 0, weights = [NaN] \<rparr>)"
proof -
  note a = single_source_modes [of masks_and_lidar_cfg "dataset_len sample_env"]
  note b = single_source_modes [of lidar_only_cfg "dataset_len sample_env"]
  note c = single_source_modes [of waymo_C "dataset_len sample_env"]
  note e = single_source_modes [of lidar_only_cfg no_items]
  have fa: "MASKS_ONLY (DATASET masks_and_lidar_cfg)" "LIDAR_DATA_ONLY (DATASET masks_and_lidar_cfg)"
    by (simp_all add: masks_and_lidar_cfg_def)
  have fb: "\<not> MASKS_ONLY (DATASET lidar_only_cfg)" "LIDAR_DATA_ONLY (DATASET lidar_only_cfg)"
    by (simp_all add: lidar_only_cfg_def waymo_C_def)
  have fc: "\<not> MASKS_ONLY (DATASET waymo_C)" "\<not> LIDAR_DATA_ONLY (DATASET waymo_C)"
    by (simp_all add: waymo_C_def)
  from a [THEN conjunct1] fa(1)
  have sa: "select_datasets (dataset_len sample_env) masks_and_lidar_cfg =
        ([new_dataset (dataset_len sample_env) SegmDataset2D masks_and_lidar_cfg True
            (PATH (DATASET masks_and_lidar_cfg)) ''train'' None None ''Segmentation 2D''],
         [Finite 1])" by simp
  from b [THEN conjunct2, THEN conjunct1] fb
  have sb: "select_datasets (dataset_len sample_env) lidar_only_cfg =
        ([new_dataset (dataset_len sample_env) SegmDataset3D lidar_only_cfg True
            (PATH (DATASET lidar_only_cfg)) ''train'' None None ''Segmentation repojected 3D''],
         [Finite 1])" by simp
  from c [THEN conjunct2, THEN conjunct2, THEN conjunct1] fc
  have "snd (select_datasets (dataset_len sample_env) waymo_C) = DATASETS_FRACTIONS (DATASET waymo_C)"
    by simp
  then have sc: "snd (select_datasets (dataset_len sample_env) waymo_C) = [Finite 1, Finite 1]"
    by (simp add: waymo_C_def)
  from a [THEN conjunct2, THEN conjunct2, THEN conjunct2] fa(1)
  obtain d k where d: "select_datasets (dataset_len sample_env) masks_and_lidar_cfg = ([d], [Finite 1])"
    "mixer [d] [Finite 1] = Inr \<lparr> dataset_samples_list = [k], num_samples = k,
                    weights = [if ds_len d = 0 then NaN else Finite 1] \<rparr>"
    "unat (ds_len d) < 2 ^ 53 \<longrightarrow> k = int (unat (ds_len d))" by blast
  from d(1) sa have dl: "ds_len d = 10" by (auto simp: new_dataset_def sample_env_def)
  with d(3) have "k = 10" by simp
  with d dl have ga: "\<exists>d. select_datasets (dataset_len sample_env) masks_and_lidar_cfg = ([d], [Finite 1])
         \<and> ds_len d = 10
         \<and> mixer [d] [Finite 1] =
              Inr \<lparr> dataset_samples_list = [10], num_samples = 10, weights = [Finite 1] \<rparr>"
    by auto
  from e [THEN conjunct2, THEN conjunct2, THEN conjunct2] fb(2)
  obtain d' k' where d': "select_datasets no_items lidar_only_cfg = ([d'], [Finite 1])"
    "mixer [d'] [Finite 1] = Inr \<lparr> dataset_samples_list = [k'], num_samples = k',
                    weights = [if ds_len d' = 0 then NaN else Finite 1] \<rparr>"
    "ds_len d' = 0 \<longrightarrow> k' = 0" by blast
  from e [THEN conjunct2, THEN conjunct1] fb d'(1) have dl': "ds_len d' = 0"
    by (auto simp: new_dataset_def no_items_def)
  with d'(3) have "k' = 0" by simp
  with d' dl' have ge: "\<exists>d. select_datasets no_items lidar_only_cfg = ([d], [Finite 1])
         \<and> ds_len d = 0
         \<and> mixer [d] [Finite 1] =
              Inr \<lparr> dataset_samples_list = [0], num_samples = 0, weights = [NaN] \<rparr>"
    by auto
  from fa fb fc sa sb sc ga ge show ?thesis by (intro conjI)
qed

text \<open>
  Claim C9 as stated fails for an empty dataset: in a single-source mode with a dataset of
  no items the fraction list is \<^verbatim>\<open>[1.0]\<close>, the budget and the total are 0, and the
  weight is \<^verbatim>\<open>nan\<close>, not 1.0.
\<close>

theorem single_source_empty_dataset:
  "MASKS_ONLY (DATASET masks_and_lidar_cfg)
   \<and> (\<exists>d. select_datasets no_items masks_and_lidar_cfg = ([d], [Finite 1])
         \<and> ds_class d = SegmDataset2D \<and> ds_len d = 0
         \<and> mixer [d] [Finite 1] =
              Inr \<lparr> dataset_samples_list = [0], num_samples = 0, weights = [NaN] \<rparr>
         \<and> weights \<lparr> dataset_samples_list = [0], num_samples = 0, weights = [NaN] \<rparr>
             \<noteq> [Finite 1])"
proof -
  let ?d = "new_dataset no_items SegmDataset2D masks_and_lidar_cfg True
      (PATH (DATASET masks_and_lidar_cfg)) ''train'' None None ''Segmentation 2D''"
  have m: "MASKS_ONLY (DATASET masks_and_lidar_cfg)" by (simp add: masks_and_lidar_cfg_def)
  then have s: "select_datasets no_items masks_and_lidar_cfg = ([?d], [Finite 1])"
    by (simp add: select_datasets_def Let_def)
  have l: "ds_len ?d = 0" "ds_class ?d = SegmDataset2D" by (simp_all add: new_dataset_def no_items_def)
  from mixer_single [of ?d] l(1)
  have x: "mixer [?d] [Finite 1] =
              Inr \<lparr> dataset_samples_list = [0], num_samples = 0, weights = [NaN] \<rparr>" by auto
  show ?thesis
    apply (rule conjI [OF m])
    apply (rule exI [of _ ?d])
    apply (simp only: s l x)
    apply simp
    done
qed

end
